theory Spec2Isabelle
  imports Main "HOL-Library.Word"
begin

unbundle bit_operations_syntax

section \<open>Class-file constants\<close>

text \<open>
  A Python \<open>str\<close> is a sequence of code points; a \<open>bytes\<close> value is a sequence of
  naturals below 256.
\<close>

type_synonym pystr = "nat list"
type_synonym bytes = "nat list"

text \<open>
  The subclasses of \<open>ConstantInfo\<close>. \<open>Integer\<close> and \<open>Long\<close> hold C integers of 32 and 64
  bits, \<open>Float\<close> and \<open>Double\<close> hold IEEE 754 values, kept here as their bit patterns.
  \<open>FieldRef\<close>, \<open>MethodRef\<close> and \<open>InterfaceMethodRef\<close> hold a \<open>Class\<close> and a
  \<open>NameAndType\<close> object, \<open>MethodHandle\<close> holds any object as its reference.
\<close>

datatype const =
    Index int
  | UTF8 pystr
  | Integer "32 word"
  | Float "32 word"
  | Long "64 word"
  | Double "64 word"
  | Class pystr
  | String pystr
  | FieldRef const const
  | MethodRef const const
  | InterfaceMethodRef const const
  | NameAndType pystr pystr
  | MethodHandle int const
  | MethodType pystr
  | Dynamic int const
  | InvokeDynamic int const
  | Module pystr
  | Package pystr

fun wide :: "const \<Rightarrow> bool" where
  "wide (Long _) = True"
| "wide (Double _) = True"
| "wide _ = False"

fun tag :: "const \<Rightarrow> int" where
  "tag (Index _) = -1"
| "tag (UTF8 _) = 1"
| "tag (Integer _) = 3"
| "tag (Float _) = 4"
| "tag (Long _) = 5"
| "tag (Double _) = 6"
| "tag (Class _) = 7"
| "tag (String _) = 8"
| "tag (FieldRef _ _) = 9"
| "tag (MethodRef _ _) = 10"
| "tag (InterfaceMethodRef _ _) = 11"
| "tag (NameAndType _ _) = 12"
| "tag (MethodHandle _ _) = 15"
| "tag (MethodType _) = 16"
| "tag (Dynamic _ _) = 17"
| "tag (InvokeDynamic _ _) = 18"
| "tag (Module _) = 19"
| "tag (Package _) = 20"

subsection \<open>Equality of constants\<close>

text \<open>
  Python's \<open>==\<close> on two floats: a NaN equals nothing, the two zeros are equal, any other
  two values are equal when their bit patterns are.
\<close>

definition f32_isnan :: "32 word \<Rightarrow> bool" where
  "f32_isnan w = (0x7F800000 < (w AND 0x7FFFFFFF))"

definition f32_eq :: "32 word \<Rightarrow> 32 word \<Rightarrow> bool" where
  "f32_eq a b = (\<not> f32_isnan a \<and> \<not> f32_isnan b \<and>
     (a = b \<or> (a AND 0x7FFFFFFF = 0 \<and> b AND 0x7FFFFFFF = 0)))"

definition f64_isnan :: "64 word \<Rightarrow> bool" where
  "f64_isnan w = (0x7FF0000000000000 < (w AND 0x7FFFFFFFFFFFFFFF))"

definition f64_eq :: "64 word \<Rightarrow> 64 word \<Rightarrow> bool" where
  "f64_eq a b = (\<not> f64_isnan a \<and> \<not> f64_isnan b \<and>
     (a = b \<or> (a AND 0x7FFFFFFFFFFFFFFF = 0 \<and> b AND 0x7FFFFFFFFFFFFFFF = 0)))"

text \<open>
  \<open>Constant.__eq__\<close> is \<open>isinstance(other, self.__class__) and other.value == self.value\<close>.
  Where one operand's class is a proper subclass of the other's (\<open>InterfaceMethodRef\<close> of
  \<open>MethodRef\<close>, \<open>InvokeDynamic\<close> of \<open>Dynamic\<close>) Python asks the subclass instance first, whose
  \<open>isinstance\<close> test fails: two constants of different classes are never equal. The \<open>value\<close>
  of each class is the property it declares; \<open>Dynamic\<close> and \<open>InvokeDynamic\<close> declare none and
  inherit the one of \<open>Constant\<close>, which returns \<open>None\<close>, so any two constants of one of
  these classes are equal. The identity shortcut of container comparisons is not modelled:
  it only matters for a NaN, which is equal to nothing here, itself included.
\<close>

fun const_eq :: "const \<Rightarrow> const \<Rightarrow> bool" where
  "const_eq (Index i) c = (case c of Index j \<Rightarrow> i = j | _ \<Rightarrow> False)"
| "const_eq (UTF8 s) c = (case c of UTF8 t \<Rightarrow> s = t | _ \<Rightarrow> False)"
| "const_eq (Integer v) c = (case c of Integer w \<Rightarrow> v = w | _ \<Rightarrow> False)"
| "const_eq (Float v) c = (case c of Float w \<Rightarrow> f32_eq v w | _ \<Rightarrow> False)"
| "const_eq (Long v) c = (case c of Long w \<Rightarrow> v = w | _ \<Rightarrow> False)"
| "const_eq (Double v) c = (case c of Double w \<Rightarrow> f64_eq v w | _ \<Rightarrow> False)"
| "const_eq (Class s) c = (case c of Class t \<Rightarrow> s = t | _ \<Rightarrow> False)"
| "const_eq (String s) c = (case c of String t \<Rightarrow> s = t | _ \<Rightarrow> False)"
| "const_eq (FieldRef a b) c =
     (case c of FieldRef a' b' \<Rightarrow> const_eq a a' \<and> const_eq b b' | _ \<Rightarrow> False)"
| "const_eq (MethodRef a b) c =
     (case c of MethodRef a' b' \<Rightarrow> const_eq a a' \<and> const_eq b b' | _ \<Rightarrow> False)"
| "const_eq (InterfaceMethodRef a b) c =
     (case c of InterfaceMethodRef a' b' \<Rightarrow> const_eq a a' \<and> const_eq b b' | _ \<Rightarrow> False)"
| "const_eq (NameAndType n d) c = (case c of NameAndType n' d' \<Rightarrow> n = n' \<and> d = d' | _ \<Rightarrow> False)"
| "const_eq (MethodHandle k r) c =
     (case c of MethodHandle k' r' \<Rightarrow> k = k' \<and> const_eq r r' | _ \<Rightarrow> False)"
| "const_eq (MethodType s) c = (case c of MethodType t \<Rightarrow> s = t | _ \<Rightarrow> False)"
| "const_eq (Dynamic _ _) c = (case c of Dynamic _ _ \<Rightarrow> True | _ \<Rightarrow> False)"
| "const_eq (InvokeDynamic _ _) c = (case c of InvokeDynamic _ _ \<Rightarrow> True | _ \<Rightarrow> False)"
| "const_eq (Module s) c = (case c of Module t \<Rightarrow> s = t | _ \<Rightarrow> False)"
| "const_eq (Package s) c = (case c of Package t \<Rightarrow> s = t | _ \<Rightarrow> False)"


fun is_Index :: "const \<Rightarrow> bool" where
  "is_Index (Index _) = True"
| "is_Index _ = False"

subsection \<open>The constant pool\<close>

text \<open>
  \<open>_backward_entries\<close> is a dict keyed by constants. A lookup finds the stored key that
  is equal to the given one (equal values hash alike); storing under a key equal to a stored
  one replaces the value and keeps the stored key; a new key goes last.
\<close>

type_synonym cdict = "(const \<times> int) list"

fun dict_get :: "cdict \<Rightarrow> const \<Rightarrow> int option" where
  "dict_get [] k = None"
| "dict_get ((s, v) # d) k = (if const_eq s k then Some v else dict_get d k)"

fun dict_set :: "cdict \<Rightarrow> const \<Rightarrow> int \<Rightarrow> cdict" where
  "dict_set [] k v = [(k, v)]"
| "dict_set ((s, w) # d) k v = (if const_eq s k then (s, v) # d else (s, w) # dict_set d k v)"

record pool =
  index :: int
  forward_entries :: "int \<rightharpoonup> const"
  backward_entries :: cdict

datatype pyerror =
    IndexError
  | KeyError int
  | KeyErrorNone
  | TypeError
  | StructError
  | UnpackError
  | UnknownTag nat
  | ConstantNotSupported nat
  | RecursiveConstant int
  | ValueError string
  | AttributeError
  | NotImplementedError
  | UnicodeEncodeError

definition empty_pool :: pool where
  "empty_pool = \<lparr>index = 1, forward_entries = Map.empty, backward_entries = []\<rparr>"


text \<open>
  \<open>ConstantPool.add(constant)\<close> for a constant; the result is the index and the pool as the
  call leaves it. A \<open>str\<close> argument is wrapped first: \<open>add_utf8\<close>.
\<close>

definition add :: "pool \<Rightarrow> const \<Rightarrow> int \<times> pool" where
  "add P c =
     (case c of
        Index i \<Rightarrow> (i, P)
      | _ \<Rightarrow>
          (case dict_get (backward_entries P) c of
             Some i \<Rightarrow> (i, P)
           | None \<Rightarrow>
               (index P,
                P\<lparr>forward_entries := (forward_entries P)(index P \<mapsto> c),
                  backward_entries := dict_set (backward_entries P) c (index P),
                  index := index P + (if wide c then 2 else 1)\<rparr>)))"

definition add_utf8 :: "pool \<Rightarrow> pystr \<Rightarrow> int \<times> pool" where
  "add_utf8 P v = add P (UTF8 v)"



section \<open>Instructions, blocks and edges\<close>

text \<open>
  Modelled from the spec: the verification types and their category (the \<open>types\<close> module
  is not among the sources). Category: int, float, references, null, returnAddress and the
  uninitialized types are 1; long and double are 2.
\<close>

datatype vtype =
    top_t
  | int_t
  | float_t
  | long_t
  | double_t
  | null_t
  | return_address_t
  | Reference string
  | This string
  | UninitializedThis string

fun internal_size :: "vtype \<Rightarrow> nat" where
  "internal_size long_t = 2"
| "internal_size double_t = 2"
| "internal_size _ = 1"

definition throwable_t :: vtype where
  "throwable_t = Reference ''java/lang/Throwable''"

text \<open>
  Modelled from the spec: the instructions the development needs (the instruction classes
  are not among the sources). A jump carries its offset, \<open>None\<close> while it is not computed.
\<close>

datatype instruction =
    nop
  | iload nat
  | istore nat
  | iadd
  | ireturn
  | return_insn
  | athrow
  | wide_insn
  | goto "int option"
  | goto_w "int option"
  | jsr "int option"
  | jsr_w "int option"
  | ifeq "int option"
  | ifne "int option"
  | ret nat
  | tableswitch
  | lookupswitch

text \<open>
  A block: its identity (\<open>bid\<close> here, for \<open>id(self)\<close>), class, label, instructions and
  \<open>inline_\<close> flag. \<open>Block.__eq__\<close> compares labels and \<open>Block.__hash__\<close> is
  \<open>id(self)\<close>: a dict keyed by blocks finds the entry of the very object it is given, and
  so goes by \<open>bid\<close> here.
\<close>

datatype block_class = InsnBlock | InsnReturnBlock | InsnRethrowBlock

datatype block = Block (bid: nat) (bclass: block_class) (label: int)
  (instructions: "instruction list") (inline: bool)

definition block_eq :: "block option \<Rightarrow> block option \<Rightarrow> bool" where
  "block_eq a b =
     (case a of
        None \<Rightarrow> b = None
      | Some x \<Rightarrow> (case b of None \<Rightarrow> False | Some y \<Rightarrow> label x = label y))"

text \<open>
  The classes of edges, with the fields each adds to \<open>from_\<close>, \<open>to\<close> and \<open>instruction\<close>
  (\<open>efrom\<close>, \<open>eto\<close> and \<open>einstruction\<close> here): the value of a switch edge; the priority,
  throwable and inline coverage of an exception edge.
\<close>

datatype edge_class =
    InsnEdge
  | FallthroughEdge
  | JumpEdge
  | JsrJumpEdge
  | JsrFallthroughEdge
  | RetEdge
  | SwitchEdge "int option"
  | ExceptionEdge int vtype bool

datatype edge = Edge (eclass: edge_class) (efrom: "block option") (eto: "block option")
  (einstruction: "instruction option")

text \<open>The class attribute \<open>limit\<close>: \<open>None\<close> on \<open>Edge\<close>, overridden by the subclasses.\<close>

fun limit :: "edge_class \<Rightarrow> nat option" where
  "limit InsnEdge = None"
| "limit FallthroughEdge = Some 1"
| "limit JumpEdge = Some 1"
| "limit JsrJumpEdge = Some 1"
| "limit JsrFallthroughEdge = Some 1"
| "limit RetEdge = Some 1"
| "limit (SwitchEdge _) = None"
| "limit (ExceptionEdge _ _ _) = None"

text \<open>\<open>a.__class__ is b.__class__\<close>.\<close>

fun same_class :: "edge_class \<Rightarrow> edge_class \<Rightarrow> bool" where
  "same_class (SwitchEdge _) k = (case k of SwitchEdge _ \<Rightarrow> True | _ \<Rightarrow> False)"
| "same_class (ExceptionEdge _ _ _) k = (case k of ExceptionEdge _ _ _ \<Rightarrow> True | _ \<Rightarrow> False)"
| "same_class c k = (c = k)"

text \<open>
  \<open>__eq__\<close> of the edge classes: the same class, equal ends and, for \<open>InsnEdge\<close> and its
  plain subclasses, equal instructions; a switch edge also compares the value; an exception
  edge compares priority and throwable instead of the instruction.
\<close>

definition edge_eq :: "edge \<Rightarrow> edge \<Rightarrow> bool" where
  "edge_eq a b =
     (block_eq (efrom a) (efrom b) \<and> block_eq (eto a) (eto b) \<and>
      (case eclass a of
         ExceptionEdge p t _ \<Rightarrow>
           (case eclass b of ExceptionEdge p' t' _ \<Rightarrow> p = p' \<and> t = t' | _ \<Rightarrow> False)
       | k \<Rightarrow> k = eclass b \<and> einstruction a = einstruction b))"

datatype source = InstructionInBlock block instruction nat | EdgeSource edge | BlockSource block

section \<open>The verifier\<close>

datatype error_type =
    INVALID_BLOCK
  | INVALID_EDGE
  | INVALID_TYPE
  | INVALID_TYPE_CATEGORY
  | STACK_UNDERFLOW
  | UNKNOWN_LOCAL
  | INVALID_STACK_MERGE
  | INVALID_LOCALS_MERGE

datatype verror = Error error_type "source option"

text \<open>
  The abstract \<open>TypeChecker\<close>: its methods are parameters. \<open>expected\<close> may be \<open>None\<close>; the
  checker of the frame-based trace also takes a \<open>fallback\<close>.
\<close>

record checker =
  check_merge :: "vtype option \<Rightarrow> vtype \<Rightarrow> bool"
  check_reference :: "vtype \<Rightarrow> bool"
  check_array :: "vtype \<Rightarrow> bool"
  check_category :: "vtype \<Rightarrow> nat \<Rightarrow> bool"
  merge :: "vtype option \<Rightarrow> vtype \<Rightarrow> vtype option \<Rightarrow> vtype"

section \<open>Frames (the frame-based trace)\<close>

text \<open>
  An \<open>Entry\<close> object. \<open>eid\<close> is the identity of the object (Python's \<open>is\<close>): every
  construction of an \<open>Entry\<close> takes the next unused identity from the world.
\<close>

datatype entry = Entry (eid: nat) (esource: "source option") (etype: vtype)
  (eparent: "entry option") (evalue: "const option")

text \<open>
  The state shared by all frames of a trace: the verifier's error list and the next unused
  object identity.
\<close>

record world =
  errors :: "verror list"
  next_id :: nat

fun depth :: "entry \<Rightarrow> nat" where
  "depth (Entry _ _ _ None _) = 0"
| "depth (Entry _ _ _ (Some p) _) = Suc (depth p)"

text \<open>
  \<open>Entry.__eq__(self, other)\<close>:
  \<open>other is self or (self.parent is not None and other == self.parent)\<close>.
\<close>

function entry_eq :: "entry \<Rightarrow> entry \<Rightarrow> bool" where
  "entry_eq self other =
     (eid other = eid self \<or>
      (case eparent self of None \<Rightarrow> False | Some p \<Rightarrow> entry_eq other p))"
  by pat_completeness auto
termination
proof (relation "measure (\<lambda>(a, b). depth a + depth b)")
  show "wf (measure (\<lambda>(a, b). depth a + depth b))"
    by simp
next
  fix self other :: entry and p
  assume "eparent self = Some p"
  then have "depth self = Suc (depth p)"
    by (cases self) simp
  then show "((other, p), (self, other)) \<in> measure (\<lambda>(a, b). depth a + depth b)"
    by simp
qed

declare entry_eq.simps [simp del]

text \<open>
  The frame. The logs of a delta session (\<open>_pops\<close>, \<open>_pushes\<close>, \<open>_swaps\<close>, \<open>_dups\<close>,
  \<open>_overwrites\<close>) and the \<open>consumed\<close> set are written by the operations and read by none
  of them; they are left out.
\<close>

record frame =
  fsource :: "source option"
  top :: entry
  stack :: "entry list"
  locals :: "nat \<rightharpoonup> entry"
  accesses :: "(bool \<times> nat \<times> entry) list"
  max_stack :: nat
  max_locals :: nat

text \<open>Modelled from the spec: the \<open>report_*\<close> helpers of the verifier add an error of their kind.\<close>

definition report :: "world \<Rightarrow> verror \<Rightarrow> world" where
  "report w e = w\<lparr>errors := errors w @ [e]\<rparr>"

definition report_invalid_type :: "world \<Rightarrow> source option \<Rightarrow> world" where
  "report_invalid_type w src = report w (Error INVALID_TYPE src)"

definition report_expected_reference_type :: "world \<Rightarrow> source option \<Rightarrow> world" where
  "report_expected_reference_type w src = report w (Error INVALID_TYPE src)"

definition report_invalid_type_category :: "world \<Rightarrow> source option \<Rightarrow> world" where
  "report_invalid_type_category w src = report w (Error INVALID_TYPE_CATEGORY src)"

definition report_stack_underflow :: "world \<Rightarrow> source option \<Rightarrow> world" where
  "report_stack_underflow w src = report w (Error STACK_UNDERFLOW src)"

definition report_unknown_local :: "world \<Rightarrow> source option \<Rightarrow> world" where
  "report_unknown_local w src = report w (Error UNKNOWN_LOCAL src)"

text \<open>\<open>Entry(source, type_, parent, value)\<close>: a new object.\<close>

definition new_entry ::
  "world \<Rightarrow> source option \<Rightarrow> vtype \<Rightarrow> entry option \<Rightarrow> const option \<Rightarrow> entry \<times> world" where
  "new_entry w src ty par val = (Entry (next_id w) src ty par val, w\<lparr>next_id := Suc (next_id w)\<rparr>)"

text \<open>\<open>Entry.cast(source, type_)\<close>.\<close>

definition cast :: "world \<Rightarrow> entry \<Rightarrow> source option \<Rightarrow> vtype \<Rightarrow> entry \<times> world" where
  "cast w e src ty = new_entry w src ty (Some e) (evalue e)"

text \<open>\<open>Frame(verifier)\<close>.\<close>

definition new_frame :: "world \<Rightarrow> frame \<times> world" where
  "new_frame w =
     (let (t, w') = new_entry w None top_t None None
      in (\<lparr>fsource = None, top = t, stack = [], locals = Map.empty, accesses = [],
            max_stack = 0, max_locals = 0\<rparr>, w'))"

text \<open>
  The type expectation of an operation: a type, \<open>None\<close> (any reference) or the class
  \<open>ArrayType\<close> (any array).
\<close>

datatype expect = ExpType vtype | ExpNone | ExpArrayType

fun expect_arg :: "expect \<Rightarrow> vtype option" where
  "expect_arg (ExpType t) = Some t"
| "expect_arg _ = None"

text \<open>\<open>Frame._check_type(expect, entry, allow_return_address)\<close>.\<close>

definition check_type ::
  "checker \<Rightarrow> world \<Rightarrow> frame \<Rightarrow> expect \<Rightarrow> entry \<Rightarrow> bool \<Rightarrow> bool \<times> world" where
  "check_type chk w f exp e allow_return_address =
     (if exp = ExpType top_t \<or> etype e = top_t then (True, w)
      else
        (case exp of
           ExpNone \<Rightarrow>
             if allow_return_address \<and> etype e = return_address_t then (True, w)
             else if check_reference chk (etype e) then (True, w)
             else (False, report_expected_reference_type w (fsource f))
         | ExpArrayType \<Rightarrow>
             if \<not> check_array chk (etype e)
             then (True, report w (Error INVALID_TYPE (fsource f)))
             else (True, w)
         | ExpType t \<Rightarrow>
             if check_merge chk (Some t) (etype e) then (True, w)
             else (False, report_invalid_type w (fsource f))))"

text \<open>
  The step both \<open>pop\<close>, \<open>get\<close> and \<open>set\<close> share: check the entry and, on a mismatch,
  replace it by a cast to the merged type.
\<close>

definition checked ::
  "checker \<Rightarrow> world \<Rightarrow> frame \<Rightarrow> expect \<Rightarrow> entry \<Rightarrow> bool \<Rightarrow> entry \<times> world" where
  "checked chk w f exp e allow_return_address =
     (let (ok, w1) = check_type chk w f exp e allow_return_address
      in if ok then (e, w1)
         else cast w1 e (fsource f) (merge chk (expect_arg exp) (etype e) None))"

text \<open>\<open>Frame.copy(deep)\<close>.\<close>

definition copy :: "world \<Rightarrow> frame \<Rightarrow> bool \<Rightarrow> frame \<times> world" where
  "copy w f deep =
     (let (g, w') = new_frame w
      in (g\<lparr>stack := stack f, locals := locals f,
            accesses := (if deep then accesses f else []),
            max_stack := max_stack f, max_locals := max_locals f\<rparr>, w'))"

text \<open>\<open>Frame.start(source)\<close>.\<close>

definition start :: "frame \<Rightarrow> source option \<Rightarrow> frame" where
  "start f src = f\<lparr>fsource := src\<rparr>"

text \<open>\<open>Frame.replace(old, new)\<close>: every occurrence of the object \<open>old\<close> is replaced.\<close>

definition replace :: "world \<Rightarrow> frame \<Rightarrow> entry \<Rightarrow> vtype \<Rightarrow> world \<times> frame" where
  "replace w f old new =
     (let (e, w') = new_entry w (if fsource f = None then esource old else fsource f) new (Some old) None
      in (w', f\<lparr>stack := map (\<lambda>x. if eid x = eid old then e else x) (stack f),
                locals := (\<lambda>i. case locals f i of
                                  None \<Rightarrow> None
                                | Some x \<Rightarrow> Some (if eid x = eid old then e else x))\<rparr>))"

subsection \<open>Stack operations\<close>

datatype entry_or_type = AnEntry entry | AType vtype

text \<open>The entry an operation is given, or a new one of the given type.\<close>

definition as_entry :: "world \<Rightarrow> frame \<Rightarrow> entry_or_type \<Rightarrow> const option \<Rightarrow> entry \<times> world" where
  "as_entry w f a val =
     (case a of AnEntry e \<Rightarrow> (e, w) | AType t \<Rightarrow> new_entry w (fsource f) t None val)"

definition update_max_stack :: "frame \<Rightarrow> frame" where
  "update_max_stack f =
     (if length (stack f) > max_stack f then f\<lparr>max_stack := length (stack f)\<rparr> else f)"

text \<open>\<open>Frame.push(entry_or_type, value)\<close>.\<close>

definition push :: "world \<Rightarrow> frame \<Rightarrow> entry_or_type \<Rightarrow> const option \<Rightarrow> world \<times> frame" where
  "push w f a val =
     (let (e, w') = as_entry w f a val;
          st = stack f @ [e];
          st' = (if internal_size (etype e) > 1 then st @ [top f] else st)
      in (w', update_max_stack (f\<lparr>stack := st'\<rparr>)))"

text \<open>
  \<open>xs[-k]\<close> for \<open>k \<ge> 1\<close> (\<open>None\<close>: IndexError), and \<open>xs.insert(-k, x)\<close>, which clamps
  the position to the start of the list.
\<close>

definition neg_index :: "'a list \<Rightarrow> nat \<Rightarrow> 'a option" where
  "neg_index xs k = (if 1 \<le> k \<and> k \<le> length xs then Some (xs ! (length xs - k)) else None)"

definition insert_neg :: "'a list \<Rightarrow> nat \<Rightarrow> 'a \<Rightarrow> 'a list" where
  "insert_neg xs k x = take (length xs - k) xs @ x # drop (length xs - k) xs"

text \<open>The category check of one stack position; nothing happens when the position is absent.\<close>

definition check_cat1 :: "checker \<Rightarrow> world \<Rightarrow> frame \<Rightarrow> entry \<Rightarrow> world" where
  "check_cat1 chk w f e =
     (if \<not> check_category chk (etype e) 1 then report_invalid_type_category w (fsource f) else w)"

text \<open>\<open>Frame.pop()\<close> with \<open>count == 1 and not tuple_\<close>.\<close>

definition pop1 :: "checker \<Rightarrow> world \<Rightarrow> frame \<Rightarrow> expect \<Rightarrow> entry \<times> world \<times> frame" where
  "pop1 chk w f exp =
     (if stack f = [] then (top f, report_stack_underflow w (fsource f), f)
      else
        (let f1 = f\<lparr>stack := butlast (stack f)\<rparr>;
             (e, w1) = checked chk w f1 exp (last (stack f)) False;
             w2 = check_cat1 chk w1 f1 e
         in (e, w2, f1)))"

text \<open>
  The loop of the general \<open>pop(count, tuple_=..., expect=...)\<close>: the entries popped so far,
  the number of underflows.
\<close>

fun pop_loop ::
  "checker \<Rightarrow> nat \<Rightarrow> world \<Rightarrow> frame \<Rightarrow> expect \<Rightarrow> entry list \<Rightarrow> nat \<Rightarrow>
   entry list \<times> nat \<times> world \<times> frame" where
  "pop_loop chk 0 w f exp entries underflow = (entries, underflow, w, f)"
| "pop_loop chk (Suc n) w f exp entries underflow =
     (if stack f = [] then pop_loop chk n w f exp (entries @ [top f]) (Suc underflow)
      else
        (let f1 = f\<lparr>stack := butlast (stack f)\<rparr>;
             (e, w1) = checked chk w f1 exp (last (stack f)) False
         in pop_loop chk n w1 f1 exp (entries @ [e]) underflow))"

text \<open>
  \<open>Frame.pop(count, tuple_, expect)\<close>; \<open>entries[0]\<close> raises IndexError when \<open>count\<close> is 0
  and a tuple is asked for.
\<close>

definition pop ::
  "checker \<Rightarrow> world \<Rightarrow> frame \<Rightarrow> nat \<Rightarrow> bool \<Rightarrow> expect \<Rightarrow> pyerror + (entry list \<times> world \<times> frame)" where
  "pop chk w f count as_tuple exp =
     (if count = 1 \<and> \<not> as_tuple then (let (e, w', f') = pop1 chk w f exp in Inr ([e], w', f'))
      else
        (let (entries, underflow, w1, f1) = pop_loop chk count w f exp [] 0
         in case entries of
              [] \<Rightarrow> Inl IndexError
            | e0 # _ \<Rightarrow>
                (let w2 = check_cat1 chk w1 f1 e0;
                     w3 = (if underflow \<noteq> 0 then report_stack_underflow w2 (fsource f1) else w2)
                 in Inr (entries, w3, f1))))"

text \<open>The category check of \<open>stack[-k]\<close>, skipped (IndexError) when the position is absent.\<close>

definition check_cat_at :: "checker \<Rightarrow> world \<Rightarrow> frame \<Rightarrow> nat \<Rightarrow> world option" where
  "check_cat_at chk w f k = map_option (check_cat1 chk w f) (neg_index (stack f) k)"

text \<open>\<open>Frame.dup(displace)\<close>.\<close>

definition dup :: "checker \<Rightarrow> world \<Rightarrow> frame \<Rightarrow> nat \<Rightarrow> world \<times> frame" where
  "dup chk w f displace =
     (if displace = 0 then
        (case neg_index (stack f) 1 of
           None \<Rightarrow>
             (report_stack_underflow w (fsource f),
              update_max_stack (f\<lparr>stack := stack f @ [top f]\<rparr>))
         | Some e \<Rightarrow>
             (let w1 = check_cat1 chk w f e;
                  w2 = (case check_cat_at chk w1 f 2 of None \<Rightarrow> w1 | Some w' \<Rightarrow> w')
              in (w2, update_max_stack (f\<lparr>stack := stack f @ [e]\<rparr>))))
      else
        (let (e, w1) = (case neg_index (stack f) 1 of
                          None \<Rightarrow> (top f, report_stack_underflow w (fsource f))
                        | Some e \<Rightarrow> (e, w));
             w2 = (case check_cat_at chk w1 f 2 of None \<Rightarrow> w1 | Some w' \<Rightarrow> w');
             w3 = (case check_cat_at chk w2 f (1 + displace) of
                     None \<Rightarrow> w2
                   | Some w' \<Rightarrow> (case check_cat_at chk w' f (2 + displace) of
                                   None \<Rightarrow> w'
                                 | Some w'' \<Rightarrow> w''))
         in (w3, update_max_stack (f\<lparr>stack := insert_neg (stack f) (1 + displace) e\<rparr>))))"

text \<open>\<open>Frame.dup2(displace)\<close>.\<close>

definition dup2 :: "checker \<Rightarrow> world \<Rightarrow> frame \<Rightarrow> nat \<Rightarrow> world \<times> frame" where
  "dup2 chk w f displace =
     (if displace = 0 then
        (let (w1, f1, u1) =
               (case neg_index (stack f) 2 of
                  None \<Rightarrow> (w, f\<lparr>stack := stack f @ [top f]\<rparr>, 1 :: nat)
                | Some e \<Rightarrow>
                    ((case check_cat_at chk w f 3 of None \<Rightarrow> w | Some w' \<Rightarrow> w'),
                     f\<lparr>stack := stack f @ [e]\<rparr>, 0));
             (f2, u2) =
               (case neg_index (stack f1) 2 of
                  None \<Rightarrow> (f1\<lparr>stack := stack f1 @ [top f1]\<rparr>, Suc u1)
                | Some e \<Rightarrow> (f1\<lparr>stack := stack f1 @ [e]\<rparr>, u1));
             w2 = (if u2 \<noteq> 0 then report_stack_underflow w1 (fsource f) else w1)
         in (w2, update_max_stack f2))
      else
        (let (entry_a, entry_b, w1) =
               (if 2 \<le> length (stack f)
                then (stack f ! (length (stack f) - 2), last (stack f), w)
                else (case neg_index (stack f) 1 of
                        Some b \<Rightarrow> (top f, b, report_stack_underflow w (fsource f))
                      | None \<Rightarrow> (top f, top f, report_stack_underflow w (fsource f))));
             w2 = (case check_cat_at chk w1 f 3 of
                     None \<Rightarrow> w1
                   | Some w' \<Rightarrow> (case check_cat_at chk w' f (2 + displace * 2) of
                                   None \<Rightarrow> w'
                                 | Some w'' \<Rightarrow> w''));
             st1 = insert_neg (stack f) (1 + displace * 2) entry_a;
             st2 = insert_neg st1 (1 + displace * 2) entry_b
         in (w2, update_max_stack (f\<lparr>stack := st2\<rparr>))))"

text \<open>\<open>Frame.swap()\<close>.\<close>

definition swap :: "checker \<Rightarrow> world \<Rightarrow> frame \<Rightarrow> world \<times> frame" where
  "swap chk w f =
     (if 2 \<le> length (stack f) then
        (let entry_a = stack f ! (length (stack f) - 2);
             entry_b = last (stack f);
             w1 = check_cat1 chk w f entry_a;
             w2 = check_cat1 chk w1 f entry_b
         in (w2, f\<lparr>stack := take (length (stack f) - 2) (stack f) @ [entry_b, entry_a]\<rparr>))
      else
        (case neg_index (stack f) 1 of
           None \<Rightarrow> (report_stack_underflow w (fsource f), f\<lparr>stack := stack f @ [top f]\<rparr>)
         | Some entry_b \<Rightarrow>
             (let w0 = report_stack_underflow w (fsource f);
                  st = stack f @ [top f];
                  entry_a = top f;
                  w1 = check_cat1 chk w0 f entry_a;
                  w2 = check_cat1 chk w1 f entry_b
              in (w2, f\<lparr>stack := take (length st - 2) st @ [entry_b, entry_a]\<rparr>))))"

subsection \<open>Locals operations\<close>

text \<open>\<open>Frame.get(index, expect)\<close>.\<close>

definition fget :: "checker \<Rightarrow> world \<Rightarrow> frame \<Rightarrow> nat \<Rightarrow> expect \<Rightarrow> entry \<times> world \<times> frame" where
  "fget chk w f i exp =
     (case locals f i of
        Some e0 \<Rightarrow>
          (let (e, w1) = checked chk w f exp e0 False
           in (e, w1, f\<lparr>accesses := accesses f @ [(True, i, e)]\<rparr>))
      | None \<Rightarrow> (top f, report_unknown_local w (fsource f), f))"

text \<open>
  \<open>local == entry\<close> for \<open>local = self.locals.get(index, None)\<close>: \<open>None\<close> is equal to no
  entry.
\<close>

definition local_eq :: "entry option \<Rightarrow> entry \<Rightarrow> bool" where
  "local_eq l e = (case l of None \<Rightarrow> False | Some x \<Rightarrow> entry_eq x e)"

text \<open>\<open>Frame.set(index, entry_or_type, value, expect)\<close>.\<close>

definition fset ::
  "checker \<Rightarrow> world \<Rightarrow> frame \<Rightarrow> nat \<Rightarrow> entry_or_type \<Rightarrow> const option \<Rightarrow> expect \<Rightarrow> world \<times> frame" where
  "fset chk w f i a val exp =
     (let (e0, w0) = as_entry w f a val
      in if local_eq (locals f i) e0 then (w0, f)
         else
           (let (e, w1) = checked chk w0 f exp e0 True;
                f1 = f\<lparr>locals := (locals f)(i \<mapsto> e), accesses := accesses f @ [(False, i, e)]\<rparr>;
                f2 = (if internal_size (etype e) > 1
                      then f1\<lparr>locals := (locals f1)(i + 1 \<mapsto> top f)\<rparr> else f1);
                idx = (if internal_size (etype e) > 1 then i + 2 else i + 1)
            in (w1, if idx > max_locals f2 then f2\<lparr>max_locals := idx\<rparr> else f2)))"

section \<open>States (the state-based trace)\<close>

text \<open>
  The \<open>Entry\<close> of the state-based trace: the state numbers its entries (\<open>id\<close>).
\<close>

datatype sentry = SEntry (sid: int) (ssource: "source option") (stype: vtype)
  (svalue: "const option") (sparents: "sentry list") (smerges: "sentry list")

text \<open>
  The state. \<open>_errors\<close> is a list the state shares with its copies and with the trace;
  the operations take it and return it.
\<close>

record state =
  next_sid :: int
  s_top :: sentry
  s_stack :: "sentry list"
  s_locals :: "nat \<rightharpoonup> sentry"
  s_max_stack :: nat
  s_max_locals :: nat
  local_accesses :: "(nat \<times> sentry option \<times> sentry \<times> bool) list"

text \<open>\<open>State(id_, errors)\<close>.\<close>

definition new_state :: "int \<Rightarrow> state" where
  "new_state i =
     \<lparr>next_sid = i, s_top = SEntry (-65536) None top_t None [] [], s_stack = [],
      s_locals = Map.empty, s_max_stack = 0, s_max_locals = 0, local_accesses = []\<rparr>"

text \<open>\<open>State.copy(id_=None, deep)\<close>.\<close>

definition s_copy :: "state \<Rightarrow> bool \<Rightarrow> state" where
  "s_copy s deep =
     (new_state (next_sid s))\<lparr>s_stack := s_stack s, s_locals := s_locals s,
        s_max_stack := s_max_stack s, s_max_locals := s_max_locals s,
        local_accesses := (if deep then local_accesses s else [])\<rparr>"

text \<open>The entry an operation is given, or a new one of the given type, numbered by the state.\<close>

datatype sentry_or_type = AnSEntry sentry | ASType vtype

definition s_as_entry ::
  "state \<Rightarrow> source option \<Rightarrow> sentry_or_type \<Rightarrow> const option \<Rightarrow> sentry list \<Rightarrow> sentry list \<Rightarrow>
   sentry \<times> state" where
  "s_as_entry s src a val parents merges =
     (case a of
        AnSEntry e \<Rightarrow> (e, s)
      | ASType t \<Rightarrow> (SEntry (next_sid s) src t val parents merges, s\<lparr>next_sid := next_sid s + 1\<rparr>))"

text \<open>\<open>State.push(source, entry_or_type, value, parents, merges)\<close>.\<close>

definition s_push ::
  "state \<Rightarrow> source option \<Rightarrow> sentry_or_type \<Rightarrow> const option \<Rightarrow> sentry list \<Rightarrow> sentry list \<Rightarrow> state" where
  "s_push s src a val parents merges =
     (let (e, s1) = s_as_entry s src a val parents merges;
          st = (if internal_size (stype e) > 1 then s_stack s1 @ [s_top s1] else s_stack s1) @ [e];
          stack_size = length st + 1
      in s1\<lparr>s_stack := st,
            s_max_stack := (if stack_size > s_max_stack s1 then stack_size else s_max_stack s1)\<rparr>)"

text \<open>\<open>State.pop(source)\<close> with \<open>amount == 1 and not tuple_\<close>.\<close>

definition s_pop1 :: "verror list \<Rightarrow> state \<Rightarrow> source option \<Rightarrow> sentry \<times> verror list \<times> state" where
  "s_pop1 errs s src =
     (if s_stack s = []
      then (SEntry (next_sid s) src top_t None [] [], errs @ [Error STACK_UNDERFLOW src],
            s\<lparr>next_sid := next_sid s + 1\<rparr>)
      else (last (s_stack s), errs, s\<lparr>s_stack := butlast (s_stack s)\<rparr>))"

text \<open>\<open>State.get(source, index)\<close>.\<close>

definition s_get ::
  "verror list \<Rightarrow> state \<Rightarrow> source option \<Rightarrow> nat \<Rightarrow> sentry \<times> verror list \<times> state" where
  "s_get errs s src i =
     (case s_locals s i of
        Some e \<Rightarrow> (e, errs, s\<lparr>local_accesses := local_accesses s @ [(i, None, e, True)]\<rparr>)
      | None \<Rightarrow>
          (let e = SEntry (next_sid s) src top_t None [] []
           in (e, errs @ [Error UNKNOWN_LOCAL src],
               s\<lparr>next_sid := next_sid s + 1,
                 local_accesses := local_accesses s @ [(i, None, e, True)]\<rparr>)))"

text \<open>\<open>State.set(source, index, entry_or_type, value, parents, merges)\<close>.\<close>

definition s_set ::
  "state \<Rightarrow> source option \<Rightarrow> nat \<Rightarrow> sentry_or_type \<Rightarrow> const option \<Rightarrow> sentry list \<Rightarrow> sentry list \<Rightarrow>
   state" where
  "s_set s src i a val parents merges =
     (let previous = s_locals s i;
          (e, s1) = s_as_entry s src a val parents merges;
          s2 = s1\<lparr>local_accesses := local_accesses s1 @ [(i, previous, e, False)],
                 s_locals := (s_locals s1)(i \<mapsto> e)\<rparr>;
          s3 = (if internal_size (stype e) > 1
                then s2\<lparr>s_locals := (s_locals s2)(i + 1 \<mapsto> s_top s2)\<rparr> else s2);
          idx = (if internal_size (stype e) > 1 then i + 2 else i + 1)
      in if idx > s_max_locals s3 then s3\<lparr>s_max_locals := idx\<rparr> else s3)"

section \<open>The graph\<close>

text \<open>
  A Python set of edges: a list that holds no two elements that are found for each other.
  \<open>in\<close>, \<open>add\<close> and \<open>remove\<close> find the element that has the hash of the given edge and
  is equal to it. Every edge class hashes its two blocks, whose hash is \<open>id(self)\<close>,
  together with fields that its \<open>__eq__\<close> compares: an element is found for an edge when
  the two are equal and have the same block objects at both ends.
\<close>

definition same_ends :: "edge \<Rightarrow> edge \<Rightarrow> bool" where
  "same_ends a b =
     (map_option bid (efrom a) = map_option bid (efrom b) \<and>
      map_option bid (eto a) = map_option bid (eto b))"

definition same_edge :: "edge \<Rightarrow> edge \<Rightarrow> bool" where
  "same_edge x e = (same_ends x e \<and> edge_eq x e)"

definition set_in :: "edge list \<Rightarrow> edge \<Rightarrow> bool" where
  "set_in xs e = (\<exists>x \<in> set xs. same_edge x e)"

definition set_add :: "edge list \<Rightarrow> edge \<Rightarrow> edge list" where
  "set_add xs e = (if set_in xs e then xs else xs @ [e])"

definition set_remove :: "edge list \<Rightarrow> edge \<Rightarrow> edge list" where
  "set_remove xs e = filter (\<lambda>x. \<not> same_edge x e) xs"

text \<open>
  \<open>_blocks\<close> maps a label to a block; \<open>_forward_edges\<close> and \<open>_backward_edges\<close> map a block
  (its identity) to the set of its out-edges and of its in-edges.
\<close>

record graph =
  entry_block :: "block option"
  return_block :: block
  rethrow_block :: block
  blocks :: "int \<rightharpoonup> block"
  forward_edges :: "nat \<rightharpoonup> edge list"
  backward_edges :: "nat \<rightharpoonup> edge list"
  opaque_edges :: "edge list"

text \<open>
  \<open>Graph._add(block, check)\<close>. A block stored under the label of the given one is equal
  to it, so the first \<open>ValueError\<close> of the source is never raised.
\<close>

definition g_add :: "graph \<Rightarrow> block \<Rightarrow> bool \<Rightarrow> pyerror + graph" where
  "g_add g b check =
     (if check \<and> label b \<in> dom (blocks g) then Inr g
      else if check \<and> bclass b = InsnReturnBlock then Inl (ValueError ''Cannot add return block'')
      else if check \<and> bclass b = InsnRethrowBlock then Inl (ValueError ''Cannot add rethrow block'')
      else Inr (g\<lparr>blocks := (blocks g)(label b \<mapsto> b),
                  forward_edges := (forward_edges g)(bid b \<mapsto> []),
                  backward_edges := (backward_edges g)(bid b \<mapsto> [])\<rparr>))"

text \<open>\<open>d.setdefault(block.label, block)\<close> on \<open>_blocks\<close>.\<close>

definition setdefault_block :: "graph \<Rightarrow> block \<Rightarrow> graph" where
  "setdefault_block g b =
     (if label b \<in> dom (blocks g) then g else g\<lparr>blocks := (blocks g)(label b \<mapsto> b)\<rparr>)"

text \<open>
  \<open>Graph._disconnect(edge)\<close>, which \<open>disconnect\<close> calls. The source reads
  \<open>edge.from_.label\<close> and \<open>edge.to.label\<close> before it asks whether \<open>edge.to\<close> is
  \<open>None\<close>: for an edge with no source or no target the attribute is read of \<open>None\<close>, an
  \<open>AttributeError\<close>, and the branch that removes an opaque edge from \<open>_opaque_edges\<close> is
  never reached.
\<close>

definition remove_forward :: "graph \<Rightarrow> nat \<Rightarrow> edge \<Rightarrow> graph" where
  "remove_forward g k e =
     (case forward_edges g k of
        None \<Rightarrow> g
      | Some fw \<Rightarrow>
          if set_in fw e then g\<lparr>forward_edges := (forward_edges g)(k \<mapsto> set_remove fw e)\<rparr> else g)"

definition remove_backward :: "graph \<Rightarrow> nat \<Rightarrow> edge \<Rightarrow> graph" where
  "remove_backward g k e =
     (case backward_edges g k of
        None \<Rightarrow> g
      | Some bw \<Rightarrow>
          if set_in bw e then g\<lparr>backward_edges := (backward_edges g)(k \<mapsto> set_remove bw e)\<rparr> else g)"

definition disconnect :: "graph \<Rightarrow> edge \<Rightarrow> pyerror + graph" where
  "disconnect g e =
     (case (efrom e, eto e) of
        (Some fb, Some tb) \<Rightarrow>
          Inr (remove_backward
                 (remove_forward (setdefault_block (setdefault_block g fb) tb) (bid fb) e)
                 (bid tb) e)
      | _ \<Rightarrow> Inl AttributeError)"

text \<open>\<open>for edge in edges: self.disconnect(edge)\<close>.\<close>

fun disconnect_all :: "graph \<Rightarrow> edge list \<Rightarrow> pyerror + graph" where
  "disconnect_all g [] = Inr g"
| "disconnect_all g (e # es) =
     (case disconnect g e of Inl err \<Rightarrow> Inl err | Inr g' \<Rightarrow> disconnect_all g' es)"

text \<open>\<open>Graph._remove(block, check)\<close>; \<open>remove(block)\<close> is the call with \<open>check = True\<close>.\<close>

definition g_remove :: "graph \<Rightarrow> block \<Rightarrow> bool \<Rightarrow> pyerror + graph" where
  "g_remove g b check =
     (if check \<and> (label b = label (return_block g) \<or> label b = label (rethrow_block g))
      then Inl (ValueError ''Cannot remove block'')
      else if label b \<notin> dom (blocks g) then Inl (ValueError ''Block is not in the graph'')
      else
        (let g1 = g\<lparr>blocks := (blocks g)(label b := None)\<rparr>;
             g2 = (if block_eq (Some b) (entry_block g1) then g1\<lparr>entry_block := None\<rparr> else g1)
         in case forward_edges g2 (bid b) of
              None \<Rightarrow> Inl (KeyError (label b))
            | Some edges \<Rightarrow>
                disconnect_all (g2\<lparr>forward_edges := (forward_edges g2)(bid b := None)\<rparr>) edges))"

definition remove :: "graph \<Rightarrow> block \<Rightarrow> pyerror + graph" where
  "remove g b = g_remove g b True"

text \<open>The edges of \<open>forward\<close> of the class of the given one.\<close>

definition conflicts_of :: "edge list \<Rightarrow> edge \<Rightarrow> edge list" where
  "conflicts_of forward e = filter (\<lambda>x. same_class (eclass x) (eclass e)) forward"

text \<open>
  \<open>Graph._connect(edge, overwrite, check)\<close>, in four steps. First, with \<open>check\<close>, the
  three tests on the ends of the edge and the two \<open>_add\<close> calls, for which the source reads
  the labels of both ends: an edge with no source or no target is an \<open>AttributeError\<close>
  there. The blocks are looked for in \<open>_blocks\<close> by their label.
\<close>

definition connect_check :: "graph \<Rightarrow> edge \<Rightarrow> pyerror + graph" where
  "connect_check g e =
     (if block_eq (eto e) (entry_block g)
        then Inl (ValueError ''Cannot create an edge to the entry block.'')
      else if block_eq (efrom e) (Some (return_block g))
        then Inl (ValueError ''Cannot create an edge from the return block.'')
      else if block_eq (efrom e) (Some (rethrow_block g))
        then Inl (ValueError ''Cannot create an edge from the rethrow block.'')
      else
        (case efrom e of
           None \<Rightarrow> Inl AttributeError
         | Some fb \<Rightarrow>
             (case g_add g fb True of
                Inl err \<Rightarrow> Inl err
              | Inr g1 \<Rightarrow>
                  (case eto e of
                     None \<Rightarrow> Inl AttributeError
                   | Some tb \<Rightarrow> g_add g1 tb True))))"

text \<open>
  Third, with \<open>check\<close> and for an edge class that has a limit: the edges of \<open>forward\<close> of
  the very class of the edge are the conflicts; when there are as many as the limit, they
  are disconnected if \<open>overwrite\<close> is set and the call raises otherwise.
\<close>

definition enforce_limit :: "graph \<Rightarrow> edge list \<Rightarrow> edge \<Rightarrow> bool \<Rightarrow> bool \<Rightarrow> pyerror + graph" where
  "enforce_limit g forward e overwrite check =
     (case (if check then limit (eclass e) else None) of
        None \<Rightarrow> Inr g
      | Some n \<Rightarrow>
          if n \<le> length (conflicts_of forward e)
          then (if overwrite then disconnect_all g (conflicts_of forward e)
                else Inl (ValueError ''Cannot add edge, limit reached. Use overwrite=True.''))
          else Inr g)"

text \<open>
  Fourth, \<open>forward.add(edge)\<close>, on the set that \<open>_forward_edges\<close> holds for the source
  block, and the edge is added to the in-edges of its target, looked up by the block, or to
  \<open>_opaque_edges\<close> when it has no target.
\<close>

definition store_edge :: "graph \<Rightarrow> block \<Rightarrow> edge \<Rightarrow> pyerror + graph" where
  "store_edge g fb e =
     (let fw = (case forward_edges g (bid fb) of None \<Rightarrow> [] | Some xs \<Rightarrow> xs);
          g4 = g\<lparr>forward_edges := (forward_edges g)(bid fb \<mapsto> set_add fw e)\<rparr>
      in case eto e of
           None \<Rightarrow> Inr (g4\<lparr>opaque_edges := set_add (opaque_edges g4) e\<rparr>)
         | Some tb \<Rightarrow>
             (case backward_edges g4 (bid tb) of
                None \<Rightarrow> Inl (KeyError (label tb))
              | Some bw \<Rightarrow>
                  Inr (g4\<lparr>backward_edges := (backward_edges g4)(bid tb \<mapsto> set_add bw e)\<rparr>)))"

text \<open>
  Second, between the checks and the limit, \<open>forward = self._forward_edges[edge.from_]\<close>:
  a \<open>KeyError\<close> when the source block, the object itself, has no entry, whether or not a
  block with its label is in \<open>_blocks\<close>.
\<close>

definition g_connect :: "graph \<Rightarrow> edge \<Rightarrow> bool \<Rightarrow> bool \<Rightarrow> pyerror + graph" where
  "g_connect g e overwrite check =
     (case (if check then connect_check g e else Inr g) of
        Inl err \<Rightarrow> Inl err
      | Inr g2 \<Rightarrow>
          (case efrom e of
             None \<Rightarrow> Inl KeyErrorNone
           | Some fb \<Rightarrow>
               (case forward_edges g2 (bid fb) of
                  None \<Rightarrow> Inl (KeyError (label fb))
                | Some forward \<Rightarrow>
                    (case enforce_limit g2 forward e overwrite check of
                       Inl err \<Rightarrow> Inl err
                     | Inr g3 \<Rightarrow> store_edge g3 fb e))))"

text \<open>The public \<open>Graph.connect(edge, overwrite=False)\<close>: \<open>check\<close> is always on.\<close>

definition connect :: "graph \<Rightarrow> edge \<Rightarrow> bool \<Rightarrow> pyerror + graph" where
  "connect g e overwrite = g_connect g e overwrite True"

text \<open>
  \<open>InsnGraph(method)\<close>: the entry block 0, the return block and the rethrow block, three
  new objects.
\<close>

definition new_graph :: graph where
  "new_graph =
     \<lparr>entry_block = Some (Block 0 InsnBlock 0 [] False),
      return_block = Block 1 InsnReturnBlock (-1) [] False,
      rethrow_block = Block 2 InsnRethrowBlock (-2) [] False,
      blocks = [0 \<mapsto> Block 0 InsnBlock 0 [] False, -1 \<mapsto> Block 1 InsnReturnBlock (-1) [] False,
                -2 \<mapsto> Block 2 InsnRethrowBlock (-2) [] False],
      forward_edges = [0 \<mapsto> [], 1 \<mapsto> [], 2 \<mapsto> []],
      backward_edges = [0 \<mapsto> [], 1 \<mapsto> [], 2 \<mapsto> []],
      opaque_edges = []\<rparr>"

fun is_jsr :: "instruction \<Rightarrow> bool" where
  "is_jsr (jsr _) = True"
| "is_jsr (jsr_w _) = True"
| "is_jsr _ = False"

fun is_ret :: "instruction \<Rightarrow> bool" where
  "is_ret (ret _) = True"
| "is_ret _ = False"

text \<open>\<open>InsnGraph.jump(from_, to, jump, overwrite=True)\<close>; the result is the graph.\<close>

definition jump :: "graph \<Rightarrow> block \<Rightarrow> block \<Rightarrow> instruction \<Rightarrow> bool \<Rightarrow> pyerror + graph" where
  "jump g fb tb insn overwrite =
     (if is_jsr insn \<or> is_ret insn then Inl TypeError
      else if insn = tableswitch \<or> insn = lookupswitch then Inl TypeError
      else connect g (Edge JumpEdge (Some fb) (Some tb) (Some insn)) overwrite)"

subsection \<open>Edges that pass the checks\<close>

text \<open>
  An edge that the checks of \<open>connect\<close> let through, between two blocks whose labels are
  in \<open>_blocks\<close>: both ends are given, the target is not the entry block and the source is
  neither the return nor the rethrow block.
\<close>

definition checked_edge :: "graph \<Rightarrow> edge \<Rightarrow> block \<Rightarrow> block \<Rightarrow> bool" where
  "checked_edge g e fb tb =
     (efrom e = Some fb \<and> eto e = Some tb \<and> \<not> block_eq (Some tb) (entry_block g) \<and>
      label fb \<noteq> label (return_block g) \<and> label fb \<noteq> label (rethrow_block g) \<and>
      label fb \<in> dom (blocks g) \<and> label tb \<in> dom (blocks g))"


text \<open>Sequencing of calls that may raise.\<close>

fun bind_err :: "pyerror + 'a \<Rightarrow> ('a \<Rightarrow> pyerror + 'b) \<Rightarrow> pyerror + 'b" where
  "bind_err (Inl e) f = Inl e"
| "bind_err (Inr x) f = f x"

section \<open>The assembler: writing a block's jump\<close>

text \<open>
  The part of \<open>_write_block\<close> that decides how the jump edge of the block is written,
  once the block's own instructions are laid out and \<open>offset\<close> is the offset after them.
\<close>

text \<open>
  Modelled from the spec: which instructions are conditional jumps
  (\<open>ConditionalJumpInstruction\<close>), and the comparisons of an instruction with the classes
  \<open>goto_w\<close> and \<open>jsr\<close>, which go by the opcode.
\<close>

fun is_conditional :: "instruction \<Rightarrow> bool" where
  "is_conditional (ifeq _) = True"
| "is_conditional (ifne _) = True"
| "is_conditional _ = False"

fun is_goto_w :: "instruction \<Rightarrow> bool" where
  "is_goto_w (goto_w _) = True"
| "is_goto_w _ = False"






text \<open>
  \<open>not is_conditional and jump_edge.to is not None and jump_edge.to.inline_ and
  len(graph._forward_edges[jump_edge.to]) <= 1\<close>.
\<close>

definition can_inline :: "graph \<Rightarrow> bool \<Rightarrow> edge \<Rightarrow> pyerror + bool" where
  "can_inline g is_cond jump_edge =
     (if is_cond then Inr False
      else
        (case eto jump_edge of
           None \<Rightarrow> Inr False
         | Some tb \<Rightarrow>
             if \<not> inline tb then Inr False
             else (case forward_edges g (bid tb) of
                     None \<Rightarrow> Inl (KeyError (label tb))
                   | Some fw \<Rightarrow> Inr (length fw \<le> 1))))"




subsection \<open>The jumps that are recorded\<close>







section \<open>The frame-based trace\<close>

text \<open>
  What \<open>Frame.initial\<close> reads of the method: whether it is static, whether it is a
  constructor (\<open>name == "<init>"\<close> and a void return type), the name of its class and the
  verification types of its arguments (each \<open>argument_type.to_verification_type()\<close>).
\<close>

record method_info =
  is_static :: bool
  is_constructor :: bool
  class_name :: string
  argument_types :: "vtype list"

fun set_arguments :: "checker \<Rightarrow> world \<Rightarrow> frame \<Rightarrow> vtype list \<Rightarrow> world \<times> frame" where
  "set_arguments chk w f [] = (w, f)"
| "set_arguments chk w f (t # ts) =
     (let (w1, f1) = fset chk w f (max_locals f) (AType t) None (ExpType top_t)
      in set_arguments chk w1 f1 ts)"

text \<open>\<open>Frame.initial(method, verifier)\<close>.\<close>

definition initial :: "checker \<Rightarrow> world \<Rightarrow> method_info \<Rightarrow> world \<times> frame" where
  "initial chk w m =
     (let (f0, w0) = new_frame w;
          (w1, f1) =
            (if \<not> is_static m
             then fset chk w0 f0 0
                    (AType (if is_constructor m then UninitializedThis (class_name m)
                            else This (class_name m))) None (ExpType top_t)
             else (w0, f0))
      in set_arguments chk w1 f1 (argument_types m))"

text \<open>
  Modelled from the spec: \<open>Instruction.trace(frame)\<close> for the instructions of the model
  (the instruction classes are not among the sources). Each instruction mutates the frame
  through \<open>get\<close>, \<open>set\<close>, \<open>pop\<close> and \<open>push\<close> with the type it expects: \<open>iload\<close> reads
  an int local and pushes it, \<open>istore\<close> pops an int into a local, \<open>iadd\<close> pops two ints
  and pushes an int, \<open>ireturn\<close> and the conditional jumps pop an int, \<open>athrow\<close> pops a
  throwable, \<open>jsr\<close> pushes a return address, \<open>ret\<close> reads its local; the others leave
  the frame as it is.
\<close>

fun trace_insn :: "checker \<Rightarrow> world \<Rightarrow> frame \<Rightarrow> instruction \<Rightarrow> world \<times> frame" where
  "trace_insn chk w f (iload n) =
     (let (e, w1, f1) = fget chk w f n (ExpType int_t) in push w1 f1 (AnEntry e) None)"
| "trace_insn chk w f (istore n) =
     (let (e, w1, f1) = pop1 chk w f (ExpType int_t)
      in fset chk w1 f1 n (AnEntry e) None (ExpType top_t))"
| "trace_insn chk w f iadd =
     (let (a, w1, f1) = pop1 chk w f (ExpType int_t);
          (b, w2, f2) = pop1 chk w1 f1 (ExpType int_t)
      in push w2 f2 (AType int_t) None)"
| "trace_insn chk w f ireturn = (let (e, w1, f1) = pop1 chk w f (ExpType int_t) in (w1, f1))"
| "trace_insn chk w f (ifeq _) = (let (e, w1, f1) = pop1 chk w f (ExpType int_t) in (w1, f1))"
| "trace_insn chk w f (ifne _) = (let (e, w1, f1) = pop1 chk w f (ExpType int_t) in (w1, f1))"
| "trace_insn chk w f athrow = (let (e, w1, f1) = pop1 chk w f (ExpType throwable_t) in (w1, f1))"
| "trace_insn chk w f (jsr _) = push w f (AType return_address_t) None"
| "trace_insn chk w f (jsr_w _) = push w f (AType return_address_t) None"
| "trace_insn chk w f (ret n) =
     (let (e, w1, f1) = fget chk w f n (ExpType return_address_t) in (w1, f1))"
| "trace_insn chk w f _ = (w, f)"

text \<open>
  The instructions of a block, each traced from its own source
  (\<open>frame.start(InstructionInBlock(block, instruction, index))\<close>).
\<close>

fun trace_instructions ::
  "checker \<Rightarrow> block \<Rightarrow> nat \<Rightarrow> world \<Rightarrow> frame \<Rightarrow> instruction list \<Rightarrow> world \<times> frame" where
  "trace_instructions chk b i w f [] = (w, f)"
| "trace_instructions chk b i w f (insn # rest) =
     (let (w1, f1) = trace_insn chk w (start f (Some (InstructionInBlock b insn i))) insn
      in trace_instructions chk b (Suc i) w1 f1 rest)"

text \<open>The instruction of the first out-edge that has one.\<close>

fun trace_edge_instruction :: "checker \<Rightarrow> world \<Rightarrow> frame \<Rightarrow> edge list \<Rightarrow> world \<times> frame" where
  "trace_edge_instruction chk w f [] = (w, f)"
| "trace_edge_instruction chk w f (e # es) =
     (case einstruction e of
        None \<Rightarrow> trace_edge_instruction chk w f es
      | Some insn \<Rightarrow> trace_insn chk w (start f (Some (EdgeSource e))) insn)"

text \<open>
  \<open>a.value != b.value\<close> for the optional constants of two entries.
\<close>

definition value_ne :: "const option \<Rightarrow> const option \<Rightarrow> bool" where
  "value_ne a b =
     (case a of
        None \<Rightarrow> b \<noteq> None
      | Some x \<Rightarrow> (case b of None \<Rightarrow> True | Some y \<Rightarrow> \<not> const_eq x y))"

text \<open>The test on a pair of entries of the two stacks, or of a local.\<close>

definition entries_differ :: "entry \<Rightarrow> entry \<Rightarrow> bool \<Rightarrow> bool" where
  "entries_differ a b with_value =
     (if etype a \<noteq> etype b \<or> (with_value \<and> value_ne (evalue a) (evalue b)) then True
      else etype a = return_address_t \<and> etype b = return_address_t \<and> esource a \<noteq> esource b)"

text \<open>
  The locals read before they are written (\<open>live\<close>) and the others that are accessed
  (\<open>overwritten\<close>), from the accesses of an exit frame.
\<close>

fun live_overwritten ::
  "(bool \<times> nat \<times> entry) list \<Rightarrow> nat list \<Rightarrow> nat list \<Rightarrow> nat list \<times> nat list" where
  "live_overwritten [] live overwritten = (live, overwritten)"
| "live_overwritten ((read, i, _) # rest) live overwritten =
     (if read \<and> i \<notin> set overwritten then live_overwritten rest (i # live) overwritten
      else live_overwritten rest live (i # overwritten))"

text \<open>
  Whether the frame conforms to one recorded constraint. The locals of the entry
  constraint are visited by index below its \<open>max_locals\<close>, which bounds the keys that
  \<open>set\<close> stores.
\<close>

definition conforms :: "frame \<Rightarrow> frame \<times> frame \<Rightarrow> bool" where
  "conforms f c =
     (let (entry_constraint, exit_constraint) = c
      in length (stack entry_constraint) = length (stack f) \<and>
         \<not> (\<exists>(a, b) \<in> set (zip (stack entry_constraint) (stack f)). entries_differ a b True) \<and>
         (let (live, overwritten) = live_overwritten (accesses exit_constraint) [] []
          in \<forall>i \<in> set [0..<max_locals entry_constraint].
               case locals entry_constraint i of
                 None \<Rightarrow> True
               | Some a \<Rightarrow>
                   i \<in> set overwritten \<or>
                   (case locals f i of
                      None \<Rightarrow> False
                    | Some b \<Rightarrow> \<not> entries_differ a b (i \<in> set live))))"

fun is_exception_edge :: "edge_class \<Rightarrow> bool" where
  "is_exception_edge (ExceptionEdge _ _ _) = True"
| "is_exception_edge _ = False"

fun throwable :: "edge_class \<Rightarrow> vtype" where
  "throwable (ExceptionEdge _ t _) = t"
| "throwable _ = throwable_t"

text \<open>
  \<open>_setup_edge_trace(verifier, edge, frame, constraints)\<close>: whether the block is to be
  traced, and the world and the frame as the call leaves them.
\<close>

definition setup_edge_trace ::
  "checker \<Rightarrow> world \<Rightarrow> edge \<Rightarrow> frame \<Rightarrow> (frame \<times> frame) list \<Rightarrow> bool \<times> world \<times> frame" where
  "setup_edge_trace chk w e f constraints =
     (if eclass e = JsrFallthroughEdge then (False, w, f)
      else
        (let (w2, f2) =
               (if is_exception_edge (eclass e)
                then (let w1 = (if \<not> check_merge chk (Some throwable_t) (throwable (eclass e))
                                then report_invalid_type w (Some (EdgeSource e)) else w);
                          merged = merge chk (Some throwable_t) (throwable (eclass e)) (Some throwable_t);
                          (x, w2) = new_entry w1 (Some (EdgeSource e)) merged None None
                      in (w2, f\<lparr>stack := [x]\<rparr>))
                else (w, f))
         in (\<not> (\<exists>c \<in> set constraints. conforms f2 c), w2, f2)))"

text \<open>
  The \<open>subroutines\<close> dict: the jsr-jump edge (or \<open>None\<close>) and the resolved ret edges
  recorded for it.
\<close>

type_synonym subroutines = "(edge option \<times> edge list) list"

fun subroutines_add :: "subroutines \<Rightarrow> edge option \<Rightarrow> edge \<Rightarrow> subroutines" where
  "subroutines_add [] k e = [(k, [e])]"
| "subroutines_add ((k', es) # rest) k e =
     (if (case k of None \<Rightarrow> k' = None | Some x \<Rightarrow> (case k' of None \<Rightarrow> False | Some y \<Rightarrow> edge_eq y x))
      then (k', set_add es e) # rest
      else (k', es) # subroutines_add rest k e)"

text \<open>
  The loop of \<open>_resolve_opaque_edge\<close> over the out-edges of the block of the \<open>jsr\<close>: the
  last jsr-jump edge, the last jsr-fallthrough edge and whether one kind came twice.
\<close>

fun find_jsr_edges ::
  "edge list \<Rightarrow> edge option \<Rightarrow> edge option \<Rightarrow> bool \<Rightarrow> edge option \<times> edge option \<times> bool" where
  "find_jsr_edges [] j ft multiple = (j, ft, multiple)"
| "find_jsr_edges (e # es) j ft multiple =
     (if eclass e = JsrJumpEdge then find_jsr_edges es (Some e) ft (multiple \<or> j \<noteq> None)
      else if eclass e = JsrFallthroughEdge then find_jsr_edges es j (Some e) (multiple \<or> ft \<noteq> None)
      else find_jsr_edges es j ft multiple)"

text \<open>
  \<open>_resolve_opaque_edge(graph, verifier, subroutines, edge, frame)\<close>: the resolved ret
  edge, or \<open>None\<close>.
\<close>

definition resolve_opaque_edge ::
  "graph \<Rightarrow> world \<Rightarrow> subroutines \<Rightarrow> edge \<Rightarrow> frame \<Rightarrow> pyerror + (edge option \<times> world \<times> subroutines)" where
  "resolve_opaque_edge g w subs e f =
     (if eclass e \<noteq> RetEdge then Inr (None, report w (Error INVALID_EDGE (Some (EdgeSource e))), subs)
      else
        (case einstruction e of
           Some (ret n) \<Rightarrow>
             (case locals f n of
                None \<Rightarrow> Inr (None, report w (Error INVALID_EDGE (Some (EdgeSource e))), subs)
              | Some return_address \<Rightarrow>
                  if etype return_address \<noteq> return_address_t
                  then Inr (None, report_invalid_type w (Some (EdgeSource e)), subs)
                  else
                    (case esource return_address of
                       Some (EdgeSource (Edge _ (Some origin) _ _)) \<Rightarrow>
                         (case forward_edges g (bid origin) of
                            None \<Rightarrow> Inl (KeyError (label origin))
                          | Some fw \<Rightarrow>
                              (let (jsr_jump_edge, jsr_fallthrough_edge, multiple_edges) =
                                     find_jsr_edges fw None None False;
                                   w1 = (if multiple_edges
                                         then report w (Error INVALID_BLOCK (Some (BlockSource origin)))
                                         else w);
                                   w2 = (if jsr_jump_edge = None
                                         then report w1 (Error INVALID_BLOCK (Some (BlockSource origin)))
                                         else w1)
                               in case jsr_fallthrough_edge of
                                    None \<Rightarrow>
                                      Inr (None,
                                           report w2 (Error INVALID_BLOCK (Some (BlockSource origin))), subs)
                                  | Some ft \<Rightarrow>
                                      (let resolved = Edge RetEdge (efrom e) (eto ft) (einstruction e)
                                       in Inr (Some resolved, w2,
                                               subroutines_add subs jsr_jump_edge resolved))))
                     | _ \<Rightarrow> Inl AttributeError))
         | _ \<Rightarrow> Inl AttributeError))"

text \<open>
  The variables of the loop of \<open>Trace.from_graph\<close>. \<open>to_visit\<close> and \<open>traversed\<close> are
  stacks whose top is the head of the list here; \<open>states\<close> maps a block (its identity) to the
  entry and exit frames recorded for it. The frame deltas are left out.
\<close>

record tstate =
  to_visit :: "(bool \<times> edge option \<times> frame \<times> edge list) list"
  traversed :: "block list"
  states :: "(nat \<times> (frame \<times> frame) list) list"
  leaf_edges :: "edge list"
  back_edges :: "edge list"
  subroutines :: subroutines
  tmax_stack :: nat
  tmax_locals :: nat
  tworld :: world

definition constraints_of :: "(nat \<times> (frame \<times> frame) list) list \<Rightarrow> nat \<Rightarrow> (frame \<times> frame) list" where
  "constraints_of sts l = (case map_of sts l of None \<Rightarrow> [] | Some cs \<Rightarrow> cs)"

fun constraints_append ::
  "(nat \<times> (frame \<times> frame) list) list \<Rightarrow> nat \<Rightarrow> frame \<times> frame \<Rightarrow> (nat \<times> (frame \<times> frame) list) list" where
  "constraints_append [] l c = [(l, [c])]"
| "constraints_append ((l', cs) # rest) l c =
     (if l' = l then (l', cs @ [c]) # rest else (l', cs) # constraints_append rest l c)"

fun constraints_setdefault ::
  "(nat \<times> (frame \<times> frame) list) list \<Rightarrow> nat \<Rightarrow> (nat \<times> (frame \<times> frame) list) list" where
  "constraints_setdefault [] l = [(l, [])]"
| "constraints_setdefault ((l', cs) # rest) l =
     (if l' = l then (l', cs) # rest else (l', cs) # constraints_setdefault rest l)"

text \<open>
  The body of the loop once an edge with a known target block is at hand (from
  \<open>if not back_edge and block in traversed\<close> on).
\<close>

definition visit_edge ::
  "checker \<Rightarrow> graph \<Rightarrow> tstate \<Rightarrow> bool \<Rightarrow> frame \<Rightarrow> edge \<Rightarrow> block \<Rightarrow> pyerror + tstate" where
  "visit_edge chk g s back_edge f e b =
     (let is_back = (\<not> back_edge \<and> (\<exists>t \<in> set (traversed s). label t = label b));
          s1 = (if is_back then s\<lparr>back_edges := set_add (back_edges s) e\<rparr> else s);
          back_edge1 = (back_edge \<or> is_back);
          s2 = s1\<lparr>states := constraints_setdefault (states s1) (bid b)\<rparr>;
          (f1, w1) = copy (tworld s2) f False;
          (go, w2, f2) = setup_edge_trace chk w1 e f1 (constraints_of (states s2) (bid b))
      in if \<not> go then Inr (s2\<lparr>tworld := w2\<rparr>)
         else
           (case forward_edges g (bid b) of
              None \<Rightarrow> Inl (KeyError (label b))
            | Some fw \<Rightarrow>
                (let (entry, w3) = copy w2 f2 False;
                     (w4, f4) = trace_instructions chk b 0 w3 f2 (instructions b);
                     (w5, f5) = trace_edge_instruction chk w4 f4 fw;
                     (f6, w6) = copy w5 f5 False
                 in Inr (s2\<lparr>states := constraints_append (states s2) (bid b) (entry, f5),
                             tmax_stack := (if max_stack f5 > tmax_stack s2
                                            then max_stack f5 else tmax_stack s2),
                             tmax_locals := (if max_locals f5 > tmax_locals s2
                                             then max_locals f5 else tmax_locals s2),
                             traversed := b # traversed s2,
                             to_visit := (back_edge1, Some e, f6, fw) # to_visit s2,
                             tworld := w6\<rparr>))))"

text \<open>
  One turn of the loop: \<open>True\<close> with the state when the loop is left (\<open>break\<close>).
  \<open>edges.pop()\<close> takes the last edge of the list.
\<close>

definition trace_step :: "checker \<Rightarrow> graph \<Rightarrow> tstate \<Rightarrow> pyerror + (bool \<times> tstate)" where
  "trace_step chk g s =
     (case to_visit s of
        [] \<Rightarrow> Inl IndexError
      | (back_edge, root, f, edges) # below \<Rightarrow>
          if edges = [] then
            (let s1 = (case root of
                         None \<Rightarrow> s
                       | Some r \<Rightarrow>
                           if (case eto r of
                                 None \<Rightarrow> True
                               | Some tb \<Rightarrow> (case forward_edges g (bid tb) of
                                               None \<Rightarrow> True | Some fw \<Rightarrow> fw = []))
                           then s\<lparr>leaf_edges := set_add (leaf_edges s) r\<rparr> else s)
             in if traversed s1 = [] then Inr (True, s1)
                else Inr (False, s1\<lparr>traversed := tl (traversed s1), to_visit := below\<rparr>))
          else
            (let e = last edges;
                 s1 = s\<lparr>to_visit := (back_edge, root, f, butlast edges) # below\<rparr>
             in case eto e of
                  Some b \<Rightarrow> map_sum id (Pair False) (visit_edge chk g s1 back_edge f e b)
                | None \<Rightarrow>
                    if \<not> set_in (opaque_edges g) e
                    then Inr (False, s1\<lparr>tworld := report (tworld s1)
                                                     (Error INVALID_EDGE (Some (EdgeSource e)))\<rparr>)
                    else
                      (case resolve_opaque_edge g (tworld s1) (subroutines s1) e f of
                         Inl err \<Rightarrow> Inl err
                       | Inr (None, w, subs) \<Rightarrow> Inr (False, s1\<lparr>tworld := w, subroutines := subs\<rparr>)
                       | Inr (Some e', w, subs) \<Rightarrow>
                           (case eto e' of
                              None \<Rightarrow> Inl AttributeError
                            | Some b \<Rightarrow>
                                map_sum id (Pair False)
                                  (visit_edge chk g (s1\<lparr>tworld := w, subroutines := subs\<rparr>)
                                     back_edge f e' b)))))"

text \<open>
  The loop, bounded by fuel: \<open>None\<close> when the fuel runs out before the loop is left.
\<close>

fun trace_loop :: "nat \<Rightarrow> checker \<Rightarrow> graph \<Rightarrow> tstate \<Rightarrow> (pyerror + tstate) option" where
  "trace_loop 0 chk g s = None"
| "trace_loop (Suc n) chk g s =
     (case trace_step chk g s of
        Inl err \<Rightarrow> Some (Inl err)
      | Inr (True, s') \<Rightarrow> Some (Inr s')
      | Inr (False, s') \<Rightarrow> trace_loop n chk g s')"

text \<open>\<open>Trace.from_graph(graph, verifier)\<close> for the method of the graph.\<close>

definition from_graph ::
  "nat \<Rightarrow> checker \<Rightarrow> graph \<Rightarrow> method_info \<Rightarrow> (pyerror + tstate) option" where
  "from_graph fuel chk g m =
     (let (w, f) = initial chk \<lparr>errors = [], next_id = 0\<rparr> m
      in trace_loop fuel chk g
           \<lparr>to_visit = [(False, None, f, [Edge InsnEdge None (entry_block g) None])],
            traversed = [], states = [], leaf_edges = [], back_edges = [], subroutines = [],
            tmax_stack = 0, tmax_locals = 0, tworld = w\<rparr>)"

section \<open>The state-based trace\<close>

text \<open>For the termination of the comparison of two entries.\<close>

lemma size_member_sentry: "m \<in> set ms \<Longrightarrow> size m < Suc (size_list size ms)"
  by (induction ms) auto

text \<open>
  \<open>Entry.__eq__\<close> of the state-based trace: the same \<open>id\<close> and type, or \<open>other\<close> equal
  to one of the merges of \<open>self\<close>.
\<close>

function sentry_eq :: "sentry \<Rightarrow> sentry \<Rightarrow> bool" where
  "sentry_eq self other =
     ((sid other = sid self \<and> stype other = stype self) \<or>
      (\<exists>m \<in> set (smerges self). sentry_eq other m))"
  by pat_completeness auto
termination
proof (relation "measure (\<lambda>(a, b). size a + size b)")
  show "wf (measure (\<lambda>(a, b). size a + size b))"
    by simp
next
  fix self other m :: sentry
  assume "m \<in> set (smerges self)"
  then have "size m < size self"
    using size_member_sentry [of m "smerges self"] by (cases self) simp
  then show "((other, m), (self, other)) \<in> measure (\<lambda>(a, b). size a + size b)"
    by simp
qed

declare sentry_eq.simps [simp del]

text \<open>
  A \<open>FrozenState\<close>: the snapshot \<open>State.freeze()\<close> takes. Two are equal when their stacks,
  locals, \<open>max_stack\<close> and \<open>max_locals\<close> are.
\<close>

record frozen_state =
  fz_stack :: "sentry list"
  fz_locals :: "nat \<rightharpoonup> sentry"
  fz_max_stack :: nat
  fz_max_locals :: nat
  fz_local_accesses :: "(nat \<times> sentry option \<times> sentry \<times> bool) list"

definition freeze :: "state \<Rightarrow> frozen_state" where
  "freeze s = \<lparr>fz_stack = s_stack s, fz_locals = s_locals s, fz_max_stack = s_max_stack s,
     fz_max_locals = s_max_locals s, fz_local_accesses = local_accesses s\<rparr>"

definition frozen_eq :: "frozen_state \<Rightarrow> frozen_state \<Rightarrow> bool" where
  "frozen_eq a b =
     (length (fz_stack a) = length (fz_stack b) \<and>
      (\<forall>(x, y) \<in> set (zip (fz_stack a) (fz_stack b)). sentry_eq x y) \<and>
      fz_max_stack a = fz_max_stack b \<and> fz_max_locals a = fz_max_locals b \<and>
      (\<forall>i \<in> set [0..<max (fz_max_locals a) (fz_max_locals b)].
         case (fz_locals a i, fz_locals b i) of
           (None, None) \<Rightarrow> True
         | (Some x, Some y) \<Rightarrow> sentry_eq x y
         | _ \<Rightarrow> False))"

fun s_set_arguments :: "state \<Rightarrow> nat \<Rightarrow> vtype list \<Rightarrow> state \<times> nat" where
  "s_set_arguments s offset [] = (s, offset)"
| "s_set_arguments s offset (t # ts) =
     s_set_arguments (s_set s None offset (ASType t) None [] []) (offset + internal_size t) ts"

text \<open>\<open>State.initial(method, errors)\<close>.\<close>

definition s_initial :: "method_info \<Rightarrow> state" where
  "s_initial m =
     (let this_type = (if is_constructor m then UninitializedThis (class_name m)
                       else This (class_name m));
          (s1, offset1) =
            (if \<not> is_static m
             then (s_set (new_state 0) None 0 (ASType this_type) None [] [], internal_size this_type)
             else (new_state 0, 0));
          (s2, offset2) = s_set_arguments s1 offset1 (argument_types m)
      in s2\<lparr>s_max_locals := offset2, local_accesses := []\<rparr>)"

text \<open>
  Modelled from the spec: \<open>Instruction.trace(source, state, errors, checker)\<close> for the
  instructions of the model, with the effects given for the frame-based trace.
\<close>

fun s_trace_insn ::
  "verror list \<Rightarrow> state \<Rightarrow> source option \<Rightarrow> instruction \<Rightarrow> verror list \<times> state" where
  "s_trace_insn errs s src (iload n) =
     (let (e, errs1, s1) = s_get errs s src n in (errs1, s_push s1 src (AnSEntry e) None [] []))"
| "s_trace_insn errs s src (istore n) =
     (let (e, errs1, s1) = s_pop1 errs s src in (errs1, s_set s1 src n (AnSEntry e) None [] []))"
| "s_trace_insn errs s src iadd =
     (let (a, errs1, s1) = s_pop1 errs s src;
          (b, errs2, s2) = s_pop1 errs1 s1 src
      in (errs2, s_push s2 src (ASType int_t) None [] []))"
| "s_trace_insn errs s src ireturn = (let (e, errs1, s1) = s_pop1 errs s src in (errs1, s1))"
| "s_trace_insn errs s src (ifeq _) = (let (e, errs1, s1) = s_pop1 errs s src in (errs1, s1))"
| "s_trace_insn errs s src (ifne _) = (let (e, errs1, s1) = s_pop1 errs s src in (errs1, s1))"
| "s_trace_insn errs s src athrow = (let (e, errs1, s1) = s_pop1 errs s src in (errs1, s1))"
| "s_trace_insn errs s src (jsr _) = (errs, s_push s src (ASType return_address_t) None [] [])"
| "s_trace_insn errs s src (jsr_w _) = (errs, s_push s src (ASType return_address_t) None [] [])"
| "s_trace_insn errs s src (ret n) = (let (e, errs1, s1) = s_get errs s src n in (errs1, s1))"
| "s_trace_insn errs s src _ = (errs, s)"

fun s_trace_instructions ::
  "block \<Rightarrow> nat \<Rightarrow> verror list \<Rightarrow> state \<Rightarrow> instruction list \<Rightarrow> verror list \<times> state" where
  "s_trace_instructions b i errs s [] = (errs, s)"
| "s_trace_instructions b i errs s (insn # rest) =
     (let (errs1, s1) = s_trace_insn errs s (Some (InstructionInBlock b insn i)) insn
      in s_trace_instructions b (Suc i) errs1 s1 rest)"

text \<open>
  \<open>for edge in out_edges: ...\<close>: the instruction of the first out-edge that has one is
  traced. The loop variable is the \<open>edge\<close> of the surrounding loop: after it, \<open>edge\<close> is the
  out-edge the loop stopped at, or the last one when none has an instruction.
\<close>

fun s_trace_edge_instruction ::
  "verror list \<Rightarrow> state \<Rightarrow> edge \<Rightarrow> edge list \<Rightarrow> verror list \<times> state \<times> edge" where
  "s_trace_edge_instruction errs s e [] = (errs, s, e)"
| "s_trace_edge_instruction errs s e (x # xs) =
     (case einstruction x of
        None \<Rightarrow> s_trace_edge_instruction errs s x xs
      | Some insn \<Rightarrow>
          (let (errs1, s1) = s_trace_insn errs s (Some (EdgeSource x)) insn in (errs1, s1, x)))"

text \<open>\<open>_same_entry(entry_a, entry_b)\<close>.\<close>

definition same_entry :: "sentry \<Rightarrow> sentry \<Rightarrow> bool" where
  "same_entry a b =
     (if stype a \<noteq> stype b then False
      else \<not> (stype a = return_address_t \<and> stype b = return_address_t \<and> ssource a \<noteq> ssource b))"

text \<open>
  The first loop of the check of one recorded constraint, over the accesses of its exit:
  \<open>None\<close> when it breaks, \<open>KeyError\<close> when a local it reads is absent.
\<close>

fun check_accesses ::
  "state \<Rightarrow> frozen_state \<Rightarrow> (nat \<times> sentry option \<times> sentry \<times> bool) list \<Rightarrow> nat list \<Rightarrow> nat list \<Rightarrow>
   pyerror + (nat list \<times> nat list) option" where
  "check_accesses s entry [] live overwritten = Inr (Some (live, overwritten))"
| "check_accesses s entry ((i, _, _, read) # rest) live overwritten =
     (if \<not> read then check_accesses s entry rest live (i # overwritten)
      else if i \<in> set live \<or> i \<in> set overwritten then check_accesses s entry rest live overwritten
      else
        (case (s_locals s i, fz_locals entry i) of
           (Some a, Some b) \<Rightarrow>
             if \<not> same_entry a b then Inr None
             else check_accesses s entry rest (i # live) overwritten
         | _ \<Rightarrow> Inl (KeyError (int i))))"

text \<open>
  Whether the state matches one recorded constraint. The locals of the state are visited by
  index below its \<open>max_locals\<close>.
\<close>

definition matches :: "state \<Rightarrow> frozen_state \<Rightarrow> frozen_state \<Rightarrow> pyerror + bool" where
  "matches s entry exit =
     (case check_accesses s entry (fz_local_accesses exit) [] [] of
        Inl err \<Rightarrow> Inl err
      | Inr None \<Rightarrow> Inr False
      | Inr (Some (live, overwritten)) \<Rightarrow>
          Inr ((\<forall>i \<in> set [0..<s_max_locals s].
                  case s_locals s i of
                    None \<Rightarrow> True
                  | Some a \<Rightarrow>
                      i \<in> set live \<or> i \<in> set overwritten \<or>
                      (case fz_locals entry i of None \<Rightarrow> True | Some b \<Rightarrow> same_entry a b)) \<and>
               length (s_stack s) = length (fz_stack entry) \<and>
               (\<forall>(a, b) \<in> set (zip (s_stack s) (fz_stack entry)). same_entry a b)))"

type_synonym sconstraints = "(frozen_state \<times> frozen_state list) list"

fun found_match :: "state \<Rightarrow> sconstraints \<Rightarrow> pyerror + bool" where
  "found_match s [] = Inr False"
| "found_match s ((entry, exits) # rest) =
     (if exits = [] then Inl (ValueError ''not enough values to unpack'')
      else
        (case matches s entry (last exits) of
           Inl err \<Rightarrow> Inl err
         | Inr True \<Rightarrow> Inr True
         | Inr False \<Rightarrow> found_match s rest))"

text \<open>\<open>constraints[entry] = (state.freeze(),)\<close> on a dict keyed by frozen states.\<close>

fun sconstraints_set :: "sconstraints \<Rightarrow> frozen_state \<Rightarrow> frozen_state list \<Rightarrow> sconstraints" where
  "sconstraints_set [] k v = [(k, v)]"
| "sconstraints_set ((k', v') # rest) k v =
     (if frozen_eq k' k then (k', v) # rest else (k', v') # sconstraints_set rest k v)"

text \<open>The dicts \<open>states\<close> (by block) and \<open>visited\<close> (by root edge).\<close>

record sstate =
  s_to_visit :: "(edge option \<times> state \<times> edge list) list"
  s_traversed :: "block list"
  s_visited :: "(edge option \<times> edge list) list"
  s_leaf_edges :: "edge list"
  s_back_edges :: "edge list"
  s_subroutines :: subroutines
  smax_stack :: nat
  smax_locals :: nat
  s_states :: "(nat \<times> sconstraints) list"
  s_errors :: "verror list"

definition sconstraints_of :: "(nat \<times> sconstraints) list \<Rightarrow> nat \<Rightarrow> sconstraints" where
  "sconstraints_of sts l = (case map_of sts l of None \<Rightarrow> [] | Some cs \<Rightarrow> cs)"

fun sstates_update :: "(nat \<times> sconstraints) list \<Rightarrow> nat \<Rightarrow> sconstraints \<Rightarrow> (nat \<times> sconstraints) list" where
  "sstates_update [] l cs = [(l, cs)]"
| "sstates_update ((l', cs') # rest) l cs =
     (if l' = l then (l', cs) # rest else (l', cs') # sstates_update rest l cs)"

definition root_eq :: "edge option \<Rightarrow> edge option \<Rightarrow> bool" where
  "root_eq a b =
     (case a of None \<Rightarrow> b = None | Some x \<Rightarrow> (case b of None \<Rightarrow> False | Some y \<Rightarrow> edge_eq x y))"

fun adjacent_of :: "(edge option \<times> edge list) list \<Rightarrow> edge option \<Rightarrow> edge list" where
  "adjacent_of [] r = []"
| "adjacent_of ((r', es) # rest) r = (if root_eq r' r then es else adjacent_of rest r)"

fun adjacent_update ::
  "(edge option \<times> edge list) list \<Rightarrow> edge option \<Rightarrow> edge list \<Rightarrow> (edge option \<times> edge list) list" where
  "adjacent_update [] r es = [(r, es)]"
| "adjacent_update ((r', es') # rest) r es =
     (if root_eq r' r then (r', es) # rest else (r', es') # adjacent_update rest r es)"

text \<open>
  The set-up of the state for an exception edge: the stack is cleared and the throwable is
  pushed, the merged type when the throwable is not assignable to \<open>java/lang/Throwable\<close>.
\<close>

definition s_setup_exception :: "checker \<Rightarrow> verror list \<Rightarrow> state \<Rightarrow> edge \<Rightarrow> verror list \<times> state" where
  "s_setup_exception chk errs s e =
     (if is_exception_edge (eclass e)
      then (let s1 = s\<lparr>s_stack := []\<rparr>
            in if \<not> check_merge chk (Some throwable_t) (throwable (eclass e))
               then (errs @ [Error INVALID_TYPE (Some (EdgeSource e))],
                     s_push s1 None
                       (ASType (merge chk (Some throwable_t) (throwable (eclass e)) None)) None [] [])
               else (errs, s_push s1 None (ASType (throwable (eclass e))) None [] []))
      else (errs, s))"

text \<open>The body of the loop from \<open>state = state.copy(deep=False)\<close> on.\<close>

definition s_visit_edge ::
  "checker \<Rightarrow> graph \<Rightarrow> sstate \<Rightarrow> edge option \<Rightarrow> state \<Rightarrow> edge \<Rightarrow> block \<Rightarrow> pyerror + sstate" where
  "s_visit_edge chk g t root s0 e b =
     (let s1 = s_copy s0 False;
          constraints = sconstraints_of (s_states t) (bid b);
          t1 = t\<lparr>s_states := sstates_update (s_states t) (bid b) constraints,
                 s_visited := adjacent_update (s_visited t) root (adjacent_of (s_visited t) root)\<rparr>;
          adjacent = adjacent_of (s_visited t1) root;
          is_back_edge = (\<exists>x \<in> set (s_traversed t1). label x = label b);
          is_adjacent_visited = set_in adjacent e;
          (errs2, s2) = s_setup_exception chk (s_errors t1) s1 e;
          t2 = t1\<lparr>s_errors := errs2\<rparr>
      in case (if is_back_edge \<or> is_adjacent_visited then found_match s2 constraints else Inr False) of
           Inl err \<Rightarrow> Inl err
         | Inr True \<Rightarrow>
             Inr (if is_back_edge then t2\<lparr>s_back_edges := set_add (s_back_edges t2) e\<rparr> else t2)
         | Inr False \<Rightarrow>
             (let t3 = (if is_back_edge \<or> is_adjacent_visited then t2
                        else t2\<lparr>s_visited := adjacent_update (s_visited t2) root (set_add adjacent e)\<rparr>);
                  entry = freeze s2;
                  out_edges = (case forward_edges g (bid b) of None \<Rightarrow> [] | Some fw \<Rightarrow> fw);
                  (errs4, s4) = s_trace_instructions b 0 (s_errors t3) s2 (instructions b);
                  (errs5, s5, e5) = s_trace_edge_instruction errs4 s4 e out_edges
              in Inr (t3\<lparr>s_states := sstates_update (s_states t3) (bid b)
                                         (sconstraints_set constraints entry [freeze s5]),
                          s_errors := errs5,
                          smax_stack := (if s_max_stack s5 > smax_stack t3
                                         then s_max_stack s5 else smax_stack t3),
                          smax_locals := (if s_max_locals s5 > smax_locals t3
                                          then s_max_locals s5 else smax_locals t3),
                          s_traversed := b # s_traversed t3,
                          s_to_visit := (Some e5, s5, out_edges) # s_to_visit t3\<rparr>)))"

text \<open>
  The resolution of an opaque ret edge inside the loop: \<open>None\<close> when the loop continues
  with the next edge.
\<close>

fun s_find_jsr_edges ::
  "edge list \<Rightarrow> block \<Rightarrow> verror list \<Rightarrow> edge option \<Rightarrow> edge option \<Rightarrow>
   verror list \<times> edge option \<times> edge option" where
  "s_find_jsr_edges [] origin errs j ft = (errs, j, ft)"
| "s_find_jsr_edges (x # xs) origin errs j ft =
     (if eclass x = JsrJumpEdge
      then s_find_jsr_edges xs origin
             (if j \<noteq> None then errs @ [Error INVALID_BLOCK (Some (BlockSource origin))] else errs)
             (Some x) ft
      else if eclass x = JsrFallthroughEdge
      then s_find_jsr_edges xs origin
             (if ft \<noteq> None then errs @ [Error INVALID_BLOCK (Some (BlockSource origin))] else errs)
             j (Some x)
      else s_find_jsr_edges xs origin errs j ft)"

definition s_resolve_ret ::
  "graph \<Rightarrow> sstate \<Rightarrow> state \<Rightarrow> edge \<Rightarrow> pyerror + (edge option \<times> sstate)" where
  "s_resolve_ret g t s e =
     (if eclass e \<noteq> RetEdge then Inl (ValueError ''Don't know how to handle opaque edge.'')
      else
        (case einstruction e of
           Some (ret n) \<Rightarrow>
             (case s_locals s n of
                None \<Rightarrow> Inr (None, t\<lparr>s_errors := s_errors t @ [Error INVALID_TYPE (Some (EdgeSource e))]\<rparr>)
              | Some return_address \<Rightarrow>
                  if stype return_address \<noteq> return_address_t
                  then Inr (None, t\<lparr>s_errors := s_errors t @ [Error INVALID_TYPE (Some (EdgeSource e))]\<rparr>)
                  else
                    (case ssource return_address of
                       Some (EdgeSource (Edge _ (Some origin) _ _)) \<Rightarrow>
                         (let out_edges = (case forward_edges g (bid origin) of
                                             None \<Rightarrow> [] | Some fw \<Rightarrow> fw);
                              (errs1, jsr_jump_edge, jsr_fallthrough_edge) =
                                s_find_jsr_edges out_edges origin (s_errors t) None None;
                              errs2 = (if jsr_jump_edge = None
                                       then errs1 @ [Error INVALID_BLOCK None] else errs1)
                          in case jsr_fallthrough_edge of
                               None \<Rightarrow>
                                 Inr (None,
                                      t\<lparr>s_errors := errs2 @ [Error INVALID_BLOCK None],
                                        s_subroutines :=
                                          (if jsr_jump_edge = None then s_subroutines t
                                           else subroutines_add (s_subroutines t) jsr_jump_edge e)\<rparr>)
                             | Some ft \<Rightarrow>
                                 (let resolved = Edge RetEdge (efrom e) (eto ft) (einstruction e)
                                  in Inr (Some resolved,
                                          t\<lparr>s_errors := errs2,
                                            s_subroutines :=
                                              (if jsr_jump_edge = None then s_subroutines t
                                               else subroutines_add (s_subroutines t) jsr_jump_edge
                                                      resolved)\<rparr>)))
                     | _ \<Rightarrow> Inl AttributeError))
         | _ \<Rightarrow> Inl AttributeError))"

text \<open>One turn of the loop of the state-based \<open>Trace.from_graph\<close>.\<close>

definition s_trace_step :: "checker \<Rightarrow> graph \<Rightarrow> sstate \<Rightarrow> pyerror + (bool \<times> sstate)" where
  "s_trace_step chk g t =
     (case s_to_visit t of
        [] \<Rightarrow> Inr (True, t)
      | (root, s, edges) # below \<Rightarrow>
          if edges = [] then
            (let t1 = (case root of
                         None \<Rightarrow> t
                       | Some r \<Rightarrow>
                           if (case eto r of
                                 None \<Rightarrow> True
                               | Some tb \<Rightarrow> (case forward_edges g (bid tb) of
                                               None \<Rightarrow> True | Some fw \<Rightarrow> fw = []))
                           then t\<lparr>s_leaf_edges := set_add (s_leaf_edges t) r\<rparr> else t)
             in if s_traversed t1 = [] then Inr (True, t1)
                else Inr (False, t1\<lparr>s_traversed := tl (s_traversed t1), s_to_visit := below\<rparr>))
          else
            (let e = last edges;
                 t1 = t\<lparr>s_to_visit := (root, s, butlast edges) # below\<rparr>
             in if eclass e = JsrFallthroughEdge then Inr (False, t1)
                else
                  (case eto e of
                     Some b \<Rightarrow> map_sum id (Pair False) (s_visit_edge chk g t1 root s e b)
                   | None \<Rightarrow>
                       if \<not> set_in (opaque_edges g) e
                       then Inr (False, t1\<lparr>s_errors := s_errors t1 @
                                                [Error INVALID_EDGE (Some (EdgeSource e))]\<rparr>)
                       else
                         (case s_resolve_ret g t1 s e of
                            Inl err \<Rightarrow> Inl err
                          | Inr (None, t2) \<Rightarrow> Inr (False, t2)
                          | Inr (Some e', t2) \<Rightarrow>
                              (case eto e' of
                                 None \<Rightarrow> Inl AttributeError
                               | Some b \<Rightarrow>
                                   map_sum id (Pair False) (s_visit_edge chk g t2 root s e' b))))))"

fun s_trace_loop :: "nat \<Rightarrow> checker \<Rightarrow> graph \<Rightarrow> sstate \<Rightarrow> (pyerror + sstate) option" where
  "s_trace_loop 0 chk g t = None"
| "s_trace_loop (Suc n) chk g t =
     (case s_trace_step chk g t of
        Inl err \<Rightarrow> Some (Inl err)
      | Inr (True, t') \<Rightarrow> Some (Inr t')
      | Inr (False, t') \<Rightarrow> s_trace_loop n chk g t')"

text \<open>The state-based \<open>Trace.from_graph(graph, checker)\<close> for the method of the graph.\<close>

definition s_from_graph ::
  "nat \<Rightarrow> checker \<Rightarrow> graph \<Rightarrow> method_info \<Rightarrow> (pyerror + sstate) option" where
  "s_from_graph fuel chk g m =
     (let s = s_initial m
      in s_trace_loop fuel chk g
           \<lparr>s_to_visit = [(None, s, [Edge InsnEdge (entry_block g) (entry_block g) None])],
            s_traversed = [], s_visited = [], s_leaf_edges = [], s_back_edges = [],
            s_subroutines = [], smax_stack = s_max_stack s, smax_locals = s_max_locals s,
            s_states = [], s_errors = []\<rparr>)"

section \<open>The codec of UTF8 constants\<close>

text \<open>
  \<open>str.encode("utf-8")\<close>: the bytes of one code point. A surrogate is refused
  (\<open>UnicodeEncodeError\<close>); a \<open>str\<close> holds no code point above U+10FFFF.
\<close>

definition encode_cp :: "nat \<Rightarrow> pyerror + bytes" where
  "encode_cp cp =
     (if cp < 0x80 then Inr [cp]
      else if cp < 0x800 then Inr [0xC0 + cp div 64, 0x80 + cp mod 64]
      else if 0xD800 \<le> cp \<and> cp \<le> 0xDFFF then Inl UnicodeEncodeError
      else if cp < 0x10000
        then Inr [0xE0 + cp div 4096, 0x80 + (cp div 64) mod 64, 0x80 + cp mod 64]
      else if cp \<le> 0x10FFFF
        then Inr [0xF0 + cp div 262144, 0x80 + (cp div 4096) mod 64, 0x80 + (cp div 64) mod 64,
                  0x80 + cp mod 64]
      else Inl UnicodeEncodeError)"

fun utf8_encode :: "pystr \<Rightarrow> pyerror + bytes" where
  "utf8_encode [] = Inr []"
| "utf8_encode (cp # s) =
     (case encode_cp cp of
        Inl err \<Rightarrow> Inl err
      | Inr bs \<Rightarrow> (case utf8_encode s of Inl err \<Rightarrow> Inl err | Inr rest \<Rightarrow> Inr (bs @ rest)))"

text \<open>
  \<open>bytes.replace(old, new)\<close>: every occurrence of \<open>old\<close>, from the left, without
  overlaps; an empty \<open>old\<close> puts \<open>new\<close> before every byte and at the end.
\<close>

function bytes_replace :: "bytes \<Rightarrow> bytes \<Rightarrow> bytes \<Rightarrow> bytes" where
  "bytes_replace old new xs =
     (if old = [] then new @ concat (map (\<lambda>b. b # new) xs)
      else if xs = [] then []
      else if take (length old) xs = old then new @ bytes_replace old new (drop (length old) xs)
      else hd xs # bytes_replace old new (tl xs))"
  by pat_completeness auto
termination
  by (relation "measure (\<lambda>(old, new, xs). length xs)") auto

declare bytes_replace.simps [simp del]

text \<open>
  \<open>pack_H\<close> and \<open>unpack_H\<close>: an unsigned 16-bit integer, big-endian; \<open>struct.error\<close> for a
  value that does not fit and for a buffer that is not two bytes long.
\<close>

definition pack_H :: "nat \<Rightarrow> pyerror + bytes" where
  "pack_H n = (if n < 65536 then Inr [n div 256, n mod 256] else Inl StructError)"

definition unpack_H :: "bytes \<Rightarrow> pyerror + nat" where
  "unpack_H bs = (case bs of [a, b] \<Rightarrow> Inr (a * 256 + b) | _ \<Rightarrow> Inl StructError)"

text \<open>
  The bytes \<open>UTF8.write\<close> writes after the length: the encoded value with every zero byte
  replaced by C0 80.
\<close>

definition utf8_payload :: "pystr \<Rightarrow> pyerror + bytes" where
  "utf8_payload v = map_sum id (bytes_replace [0x00] [0xC0, 0x80]) (utf8_encode v)"

text \<open>\<open>UTF8.write(class_file, buffer)\<close>: the bytes written to the buffer.\<close>

definition utf8_write :: "pystr \<Rightarrow> pyerror + bytes" where
  "utf8_write v =
     (case utf8_payload v of
        Inl err \<Rightarrow> Inl err
      | Inr bs \<Rightarrow> (case pack_H (length bs) of Inl err \<Rightarrow> Inl err | Inr n \<Rightarrow> Inr (n @ bs)))"

text \<open>
  \<open>bytes.decode("utf-8", errors="ignore")\<close>, as CPython decodes: an invalid start byte is
  dropped; when a continuation byte is missing or out of range, the bytes of the sequence
  before it are dropped and decoding goes on at that byte; a sequence cut off by the end of
  the data is dropped.
\<close>

definition is_continuation :: "nat \<Rightarrow> bool" where
  "is_continuation b = (0x80 \<le> b \<and> b < 0xC0)"

fun utf8_decode :: "bytes \<Rightarrow> pystr" where
  "utf8_decode [] = []"
| "utf8_decode (ch # rest) =
     (if ch < 0x80 then ch # utf8_decode rest
      else if ch < 0xC2 then utf8_decode rest
      else if ch < 0xE0 then
        (case rest of
           [] \<Rightarrow> []
         | ch2 # r2 \<Rightarrow>
             if \<not> is_continuation ch2 then utf8_decode rest
             else ((ch - 0xC0) * 64 + (ch2 - 0x80)) # utf8_decode r2)
      else if ch < 0xF0 then
        (case rest of
           [] \<Rightarrow> []
         | ch2 # r2 \<Rightarrow>
             if \<not> is_continuation ch2 \<or> (if ch2 < 0xA0 then ch = 0xE0 else ch = 0xED)
             then utf8_decode rest
             else
               (case r2 of
                  [] \<Rightarrow> []
                | ch3 # r3 \<Rightarrow>
                    if \<not> is_continuation ch3 then utf8_decode r2
                    else ((ch - 0xE0) * 4096 + (ch2 - 0x80) * 64 + (ch3 - 0x80)) # utf8_decode r3))
      else if ch < 0xF5 then
        (case rest of
           [] \<Rightarrow> []
         | ch2 # r2 \<Rightarrow>
             if \<not> is_continuation ch2 \<or> (if ch2 < 0x90 then ch = 0xF0 else ch = 0xF4)
             then utf8_decode rest
             else
               (case r2 of
                  [] \<Rightarrow> []
                | ch3 # r3 \<Rightarrow>
                    if \<not> is_continuation ch3 then utf8_decode r2
                    else
                      (case r3 of
                         [] \<Rightarrow> []
                       | ch4 # r4 \<Rightarrow>
                           if \<not> is_continuation ch4 then utf8_decode r3
                           else ((ch - 0xF0) * 262144 + (ch2 - 0x80) * 4096 + (ch3 - 0x80) * 64
                                 + (ch4 - 0x80)) # utf8_decode r4)))
      else utf8_decode rest)"

text \<open>
  \<open>buffer.read(n)\<close>: the next \<open>n\<close> bytes, or as many as are left, and the rest of the buffer.
\<close>

definition buffer_read :: "bytes \<Rightarrow> nat \<Rightarrow> bytes \<times> bytes" where
  "buffer_read buf n = (take n buf, drop n buf)"

text \<open>
  \<open>UTF8.read(buffer)\<close>: the constant and the rest of the buffer. The value read is
  \<open>value.replace(b"\\xc0\\x80", b"\\x00").decode("utf-8", errors="ignore")\<close>.
\<close>

definition utf8_read_value :: "bytes \<Rightarrow> pystr" where
  "utf8_read_value bs = utf8_decode (bytes_replace [0xC0, 0x80] [0x00] bs)"

definition utf8_read :: "bytes \<Rightarrow> pyerror + (const \<times> bytes)" where
  "utf8_read buf =
     (let (len_bytes, buf1) = buffer_read buf 2
      in case unpack_H len_bytes of
           Inl err \<Rightarrow> Inl err
         | Inr n \<Rightarrow> (let (bs, buf2) = buffer_read buf1 n in Inr (UTF8 (utf8_read_value bs), buf2)))"

text \<open>
  The encoding the claim names, from the spec's words: a supplementary code point as a
  pair of surrogates, each in three bytes (CESU-8).
\<close>

definition cesu8_surrogate_pair :: "nat \<Rightarrow> bytes" where
  "cesu8_surrogate_pair cp =
     (let hi = 0xD800 + (cp - 0x10000) div 1024; lo = 0xDC00 + (cp - 0x10000) mod 1024
      in [0xE0 + hi div 4096, 0x80 + (hi div 64) mod 64, 0x80 + hi mod 64,
          0xE0 + lo div 4096, 0x80 + (lo div 64) mod 64, 0x80 + lo mod 64])"

text \<open>
  What \<open>replace(b"\\x00", b"\\xc0\\x80")\<close> makes of one byte.
\<close>

definition escape_zero :: "nat \<Rightarrow> bytes" where
  "escape_zero b = (if b = 0 then [0xC0, 0x80] else [b])"

section \<open>Reading the constant pool\<close>

subsection \<open>Field descriptors\<close>

text \<open>
  \<open>descriptor.next_argument\<close>: the next type of a descriptor and what is left of it. The
  base types go by their letter (\<open>B S I J C F D Z V\<close>); \<open>L\<close> opens a class name that ends
  at the first \<open>;\<close> of the descriptor; \<open>[\<close> adds a dimension to the type that follows.
\<close>

datatype dtype =
    InvalidType
  | BaseType nat
  | ClassOrInterfaceType pystr
  | ArrayType dtype nat

definition base_letters :: "nat list" where
  "base_letters = [66, 83, 73, 74, 67, 70, 68, 90, 86]"

definition void_letter :: nat where
  "void_letter = 86"

fun next_argument :: "pystr \<Rightarrow> dtype \<times> pystr" where
  "next_argument [] = (InvalidType, [])"
| "next_argument (c # d) =
     (if c = 76 then
        (if 59 \<in> set d
           then (ClassOrInterfaceType (takeWhile (\<lambda>x. x \<noteq> 59) d), tl (dropWhile (\<lambda>x. x \<noteq> 59) d))
           else (InvalidType, []))
      else if c = 91 then
        (case next_argument d of
           (ArrayType t n, rest) \<Rightarrow> (ArrayType t (n + 1), rest)
         | (element_type, rest) \<Rightarrow> (ArrayType element_type 1, rest))
      else if c \<in> set base_letters then (BaseType c, d)
      else (InvalidType, []))"

text \<open>\<open>descriptor.parse_field_descriptor(descriptor)\<close>, with its defaults.\<close>

definition parse_field_descriptor :: "pystr \<Rightarrow> pyerror + dtype" where
  "parse_field_descriptor d =
     (if d = [] then Inl (ValueError ''Descriptor is empty.'')
      else
        (case next_argument d of
           (type, remaining) \<Rightarrow>
             if remaining \<noteq> [] then Inl (ValueError ''Trailing data in descriptor.'')
             else if type = BaseType void_letter \<or> type = InvalidType then Inl TypeError
             else Inr type))"

subsection \<open>The readers of the constants\<close>

text \<open>
  The \<open>struct\<close> unpackers of the readers, big-endian as the class file is:
  \<open>struct.error\<close> for a buffer of another length.
\<close>

definition be_nat :: "bytes \<Rightarrow> nat" where
  "be_nat bs = foldl (\<lambda>a b. a * 256 + b) 0 bs"

definition unpack_i :: "bytes \<Rightarrow> pyerror + 32 word" where
  "unpack_i bs = (if length bs = 4 then Inr (word_of_nat (be_nat bs)) else Inl StructError)"

definition unpack_f :: "bytes \<Rightarrow> pyerror + 32 word" where
  "unpack_f bs = (if length bs = 4 then Inr (word_of_nat (be_nat bs)) else Inl StructError)"

definition unpack_q :: "bytes \<Rightarrow> pyerror + 64 word" where
  "unpack_q bs = (if length bs = 8 then Inr (word_of_nat (be_nat bs)) else Inl StructError)"

definition unpack_d :: "bytes \<Rightarrow> pyerror + 64 word" where
  "unpack_d bs = (if length bs = 8 then Inr (word_of_nat (be_nat bs)) else Inl StructError)"

definition unpack_HH :: "bytes \<Rightarrow> pyerror + (nat \<times> nat)" where
  "unpack_HH bs =
     (case bs of [a, b, c, d] \<Rightarrow> Inr (a * 256 + b, c * 256 + d) | _ \<Rightarrow> Inl StructError)"

definition unpack_BH :: "bytes \<Rightarrow> pyerror + (nat \<times> nat)" where
  "unpack_BH bs = (case bs of [a, b, c] \<Rightarrow> Inr (a, b * 256 + c) | _ \<Rightarrow> Inl StructError)"

text \<open>
  What a reader returns: a closure that is given the dereferencing function later. The
  constants without references are built at once (\<open>lambda _: constant\<close>); the others keep
  the indices they read. The class of the constant to build is kept as its tag.
\<close>

datatype lookup =
    Constant_lookup const
  | Value_lookup nat int
  | Ref_lookup nat int int
  | NameAndType_lookup int int
  | MethodHandle_lookup int int
  | Dynamic_lookup nat int int

text \<open>\<open>_constant_map\<close>, \<open>since\<close> and \<open>wide\<close> of the classes, by tag.\<close>

definition constant_map :: "nat list" where
  "constant_map = [1, 3, 4, 5, 6, 7, 8, 9, 10, 11, 12, 15, 16, 17, 18, 19, 20]"

text \<open>
  Modelled from the spec: a \<open>Version\<close> is a major and a minor number, compared in this
  order (the class is not among the sources).
\<close>

type_synonym version = "nat \<times> nat"

definition version_gt :: "version \<Rightarrow> version \<Rightarrow> bool" where
  "version_gt a b = (fst a > fst b \<or> (fst a = fst b \<and> snd a > snd b))"

definition since :: "nat \<Rightarrow> version" where
  "since t =
     (if t = 15 \<or> t = 16 \<or> t = 18 then (51, 0)
      else if t = 17 then (55, 0)
      else if t = 19 \<or> t = 20 then (53, 0)
      else (45, 0))"

definition class_wide :: "nat \<Rightarrow> bool" where
  "class_wide t = (t = 5 \<or> t = 6)"

text \<open>\<open>constant.read(buffer)\<close> of the class with the given tag.\<close>

definition read_info :: "nat \<Rightarrow> bytes \<Rightarrow> pyerror + (lookup \<times> bytes)" where
  "read_info t buf =
     (if t = 1 then map_sum id (\<lambda>(c, rest). (Constant_lookup c, rest)) (utf8_read buf)
      else if t = 3 then
        (let (bs, rest) = buffer_read buf 4
         in map_sum id (\<lambda>v. (Constant_lookup (Integer v), rest)) (unpack_i bs))
      else if t = 4 then
        (let (bs, rest) = buffer_read buf 4
         in map_sum id (\<lambda>v. (Constant_lookup (Float v), rest)) (unpack_f bs))
      else if t = 5 then
        (let (bs, rest) = buffer_read buf 8
         in map_sum id (\<lambda>v. (Constant_lookup (Long v), rest)) (unpack_q bs))
      else if t = 6 then
        (let (bs, rest) = buffer_read buf 8
         in map_sum id (\<lambda>v. (Constant_lookup (Double v), rest)) (unpack_d bs))
      else if t = 7 \<or> t = 8 \<or> t = 16 \<or> t = 19 \<or> t = 20 then
        (let (bs, rest) = buffer_read buf 2
         in map_sum id (\<lambda>i. (Value_lookup t (int i), rest)) (unpack_H bs))
      else if t = 9 \<or> t = 10 \<or> t = 11 then
        (let (bs, rest) = buffer_read buf 4
         in map_sum id (\<lambda>(c, n). (Ref_lookup t (int c) (int n), rest)) (unpack_HH bs))
      else if t = 12 then
        (let (bs, rest) = buffer_read buf 4
         in map_sum id (\<lambda>(n, d). (NameAndType_lookup (int n) (int d), rest)) (unpack_HH bs))
      else if t = 15 then
        (let (bs, rest) = buffer_read buf 3
         in map_sum id (\<lambda>(k, r). (MethodHandle_lookup (int k) (int r), rest)) (unpack_BH bs))
      else
        (let (bs, rest) = buffer_read buf 4
         in map_sum id (\<lambda>(b, n). (Dynamic_lookup t (int b) (int n), rest)) (unpack_HH bs)))"

subsection \<open>Building a constant from what was dereferenced\<close>

text \<open>
  The \<open>value\<close> of a constant when it is a \<open>str\<close>. The constructors that take a \<open>str\<close>
  are typed, and so are the attributes they assign: a value of another type, \<open>None\<close>
  included, is a \<open>TypeError\<close>.
\<close>

fun str_value :: "const \<Rightarrow> pystr option" where
  "str_value (UTF8 s) = Some s"
| "str_value (Class s) = Some s"
| "str_value (String s) = Some s"
| "str_value (MethodType s) = Some s"
| "str_value (Module s) = Some s"
| "str_value (Package s) = Some s"
| "str_value _ = None"

fun is_Class :: "const \<Rightarrow> bool" where
  "is_Class (Class _) = True"
| "is_Class _ = False"

fun is_NameAndType :: "const \<Rightarrow> bool" where
  "is_NameAndType (NameAndType _ _) = True"
| "is_NameAndType _ = False"

text \<open>
  \<open>Class.__init__(name)\<close> parses the name of an array class as a field descriptor, which
  may raise; the other constructors store their argument.
\<close>

definition new_Class :: "pystr \<Rightarrow> pyerror + const" where
  "new_Class name =
     (if name \<noteq> [] \<and> hd name = 91
        then (case parse_field_descriptor name of Inl err \<Rightarrow> Inl err | Inr _ \<Rightarrow> Inr (Class name))
        else Inr (Class name))"

definition new_value :: "nat \<Rightarrow> pystr \<Rightarrow> pyerror + const" where
  "new_value t s =
     (if t = 7 then new_Class s
      else if t = 8 then Inr (String s)
      else if t = 16 then Inr (MethodType s)
      else if t = 19 then Inr (Module s)
      else Inr (Package s))"

definition new_ref :: "nat \<Rightarrow> const \<Rightarrow> const \<Rightarrow> pyerror + const" where
  "new_ref t class_c name_and_type =
     (if is_Class class_c \<and> is_NameAndType name_and_type
        then Inr (if t = 9 then FieldRef class_c name_and_type
                  else if t = 10 then MethodRef class_c name_and_type
                  else InterfaceMethodRef class_c name_and_type)
        else Inl TypeError)"

definition new_dynamic :: "nat \<Rightarrow> int \<Rightarrow> const \<Rightarrow> pyerror + const" where
  "new_dynamic t bootstrap_method_attr_index name_and_type =
     (if is_NameAndType name_and_type
        then Inr (if t = 17 then Dynamic bootstrap_method_attr_index name_and_type
                  else InvokeDynamic bootstrap_method_attr_index name_and_type)
        else Inl TypeError)"

text \<open>
  Calling a closure with the dereferencing function. The arguments of the constructor are
  evaluated from left to right before it is called, and an exception of
  \<open>dynamic_deref\<close> goes through.
\<close>

fun call :: "lookup \<Rightarrow> (int \<Rightarrow> pyerror + const) \<Rightarrow> pyerror + const" where
  "call (Constant_lookup c) dynamic_deref = Inr c"
| "call (Value_lookup t i) dynamic_deref =
     (case dynamic_deref i of
        Inl err \<Rightarrow> Inl err
      | Inr c \<Rightarrow> (case str_value c of None \<Rightarrow> Inl TypeError | Some s \<Rightarrow> new_value t s))"
| "call (Ref_lookup t class_index name_and_type_index) dynamic_deref =
     (case dynamic_deref class_index of
        Inl err \<Rightarrow> Inl err
      | Inr c \<Rightarrow>
          (case dynamic_deref name_and_type_index of
             Inl err \<Rightarrow> Inl err
           | Inr n \<Rightarrow> new_ref t c n))"
| "call (NameAndType_lookup name_index descriptor_index) dynamic_deref =
     (case dynamic_deref name_index of
        Inl err \<Rightarrow> Inl err
      | Inr a \<Rightarrow>
          (case dynamic_deref descriptor_index of
             Inl err \<Rightarrow> Inl err
           | Inr b \<Rightarrow>
               (case (str_value a, str_value b) of
                  (Some name, Some descriptor) \<Rightarrow> Inr (NameAndType name descriptor)
                | _ \<Rightarrow> Inl TypeError)))"
| "call (MethodHandle_lookup reference_kind reference_index) dynamic_deref =
     (case dynamic_deref reference_index of
        Inl err \<Rightarrow> Inl err
      | Inr r \<Rightarrow> Inr (MethodHandle reference_kind r))"
| "call (Dynamic_lookup t bootstrap_method_attr_index name_and_type_index) dynamic_deref =
     (case dynamic_deref name_and_type_index of
        Inl err \<Rightarrow> Inl err
      | Inr n \<Rightarrow> new_dynamic t bootstrap_method_attr_index n)"

subsection \<open>\<open>ConstantPool.read\<close>\<close>

text \<open>
  \<open>lookups\<close> is a dict from the offsets to the closures, filled at growing offsets: an
  association list in the order of insertion.

  \<open>dynamic_deref(index, visited)\<close>: \<open>visited\<close> is the list of the indices being
  dereferenced, the last one innermost; the index is appended for the call of the closure
  and popped after it. The \<open>ValueError\<close> it raises for an index that is in \<open>visited\<close> is
  \<open>RecursiveConstant\<close> here, and \<open>lookups[index]\<close> is a \<open>KeyError\<close> when no constant was
  read at the index. Nothing catches either.
\<close>

function dynamic_deref :: "(int \<times> lookup) list \<Rightarrow> int list \<Rightarrow> int \<Rightarrow> pyerror + const" where
  "dynamic_deref lookups visited idx =
     (if idx \<in> set visited then Inl (RecursiveConstant idx)
      else
        (case map_of lookups idx of
           None \<Rightarrow> Inl (KeyError idx)
         | Some lookup \<Rightarrow> call lookup (\<lambda>index'. dynamic_deref lookups (visited @ [idx]) index')))"
  by pat_completeness auto
termination
proof (relation "measure (\<lambda>(lookups, visited, idx). card (fst ` set lookups - set visited))")
  show "wf (measure (\<lambda>(lookups, visited, idx). card (fst ` set lookups - set visited)))"
    by simp
next
  fix lookups :: "(int \<times> lookup) list" and visited :: "int list" and idx x2 x
  assume "idx \<notin> set visited" and "map_of lookups idx = Some x2"
  then have "idx \<in> fst ` set lookups - set visited"
    by (auto dest: map_of_SomeD intro: rev_image_eqI)
  then have "fst ` set lookups - set (visited @ [idx]) \<subset> fst ` set lookups - set visited"
    by auto
  then have "card (fst ` set lookups - set (visited @ [idx])) < card (fst ` set lookups - set visited)"
    by (intro psubset_card_mono) auto
  then show "((lookups, visited @ [idx], x), lookups, visited, idx)
      \<in> measure (\<lambda>(lookups, visited, idx). card (fst ` set lookups - set visited))"
    by simp
qed

declare dynamic_deref.simps [simp del]

text \<open>
  The first loop of \<open>read\<close>: one constant per turn, at \<open>offset\<close>, which grows by two after a
  wide constant. \<open>tag, = buffer.read(1)\<close> cannot unpack an empty read. The two
  \<open>ValueError\<close>s of the loop are \<open>UnknownTag\<close> and \<open>ConstantNotSupported\<close> here.
\<close>

function read_loop ::
  "version \<Rightarrow> int \<Rightarrow> int \<Rightarrow> bytes \<Rightarrow> (int \<times> lookup) list
     \<Rightarrow> pyerror + ((int \<times> lookup) list \<times> int \<times> bytes)" where
  "read_loop version constants_count offset buf lookups =
     (if offset < constants_count then
        (case buffer_read buf 1 of
           ([t], buf1) \<Rightarrow>
             if t \<notin> set constant_map then Inl (UnknownTag t)
             else if version_gt (since t) version then Inl (ConstantNotSupported t)
             else
               (case read_info t buf1 of
                  Inl err \<Rightarrow> Inl err
                | Inr (lookup, buf2) \<Rightarrow>
                    read_loop version constants_count (offset + (if class_wide t then 2 else 1)) buf2
                      (lookups @ [(offset, lookup)]))
         | _ \<Rightarrow> Inl UnpackError)
      else Inr (lookups, offset, buf))"
  by pat_completeness auto
termination
  by (relation "measure (\<lambda>(version, constants_count, offset, buf, lookups). nat (constants_count - offset))")
     auto

declare read_loop.simps [simp del]

definition read_lookups :: "version \<Rightarrow> bytes \<Rightarrow> pyerror + ((int \<times> lookup) list \<times> int \<times> bytes)" where
  "read_lookups version buf =
     (let (bs, buf1) = buffer_read buf 2
      in case unpack_H bs of
           Inl err \<Rightarrow> Inl err
         | Inr constants_count \<Rightarrow> read_loop version (int constants_count) 1 buf1 [])"

text \<open>
  The second loop of \<open>read\<close>: every closure is called, in the order of \<open>lookups\<close>, with a
  dereferencing function that starts from an empty \<open>visited\<close>, and the constant it returns
  is stored in both dicts.
\<close>

fun dereference :: "(int \<times> lookup) list \<Rightarrow> (int \<times> lookup) list \<Rightarrow> pool \<Rightarrow> pyerror + pool" where
  "dereference lookups [] P = Inr P"
| "dereference lookups ((idx, lookup) # items) P =
     (case call lookup (\<lambda>index'. dynamic_deref lookups [] index') of
        Inl err \<Rightarrow> Inl err
      | Inr constant \<Rightarrow>
          dereference lookups items
            (P\<lparr>forward_entries := (forward_entries P)(idx \<mapsto> constant),
               backward_entries := dict_set (backward_entries P) constant idx\<rparr>))"

text \<open>\<open>ConstantPool.read(version, buffer)\<close>: the pool, and what is left of the buffer.\<close>

definition read :: "version \<Rightarrow> bytes \<Rightarrow> pyerror + (pool \<times> bytes)" where
  "read version buf =
     (case read_lookups version buf of
        Inl err \<Rightarrow> Inl err
      | Inr (lookups, offset, rest) \<Rightarrow>
          (case dereference lookups lookups (empty_pool\<lparr>index := offset\<rparr>) of
             Inl err \<Rightarrow> Inl err
           | Inr P \<Rightarrow> Inr (P, rest)))"

text \<open>The indices a closure dereferences, and the references between the slots.\<close>

fun refs :: "lookup \<Rightarrow> int list" where
  "refs (Constant_lookup _) = []"
| "refs (Value_lookup _ i) = [i]"
| "refs (Ref_lookup _ c n) = [c, n]"
| "refs (NameAndType_lookup n d) = [n, d]"
| "refs (MethodHandle_lookup _ r) = [r]"
| "refs (Dynamic_lookup _ _ n) = [n]"

definition refers :: "(int \<times> lookup) list \<Rightarrow> int \<Rightarrow> int \<Rightarrow> bool" where
  "refers lookups i j = (case map_of lookups i of None \<Rightarrow> False | Some l \<Rightarrow> j \<in> set (refs l))"

text \<open>A closure that does not hold an \<open>Index\<close> placeholder.\<close>

fun not_placeholder :: "lookup \<Rightarrow> bool" where
  "not_placeholder (Constant_lookup c) = (\<not> is_Index c)"
| "not_placeholder _ = True"

section \<open>Concrete inputs\<close>










definition world0 :: world where
  "world0 = \<lparr>errors = [], next_id = 0\<rparr>"

definition frame0 :: frame where
  "frame0 = fst (new_frame world0)"

definition world1 :: world where
  "world1 = snd (new_frame world0)"

text \<open>A checker that accepts every merge and every category, and merges to the actual type.\<close>

definition lax_checker :: checker where
  "lax_checker = \<lparr>check_merge = (\<lambda>_ _. True), check_reference = (\<lambda>_. True),
     check_array = (\<lambda>_. True), check_category = (\<lambda>_ _. True), merge = (\<lambda>_ t _. t)\<rparr>"

text \<open>The frame after \<open>set(0, int_t)\<close> on a new frame, its world, and the entry it stored.\<close>

definition frame_int0 :: frame where
  "frame_int0 = snd (fset lax_checker world1 frame0 0 (AType int_t) None (ExpType top_t))"

definition world_int0 :: world where
  "world_int0 = fst (fset lax_checker world1 frame0 0 (AType int_t) None (ExpType top_t))"

definition entry_int0 :: entry where
  "entry_int0 = Entry 1 None int_t None None"

definition tmp_block :: block where
  "tmp_block = Block 5 InsnBlock 65336 [] False"

definition target_block :: block where
  "target_block = Block 4 InsnBlock 2 [] False"

definition graph_t :: "pyerror + graph" where
  "graph_t = g_add new_graph target_block True"

text \<open>
  The graph with blocks 0 and 1 and a fallthrough edge between them, a second fallthrough
  edge and a switch edge from block 0.
\<close>

definition block0 :: block where
  "block0 = Block 0 InsnBlock 0 [] False"

definition block1 :: block where
  "block1 = Block 3 InsnBlock 1 [] False"

definition edge_ft1 :: edge where
  "edge_ft1 = Edge FallthroughEdge (Some block0) (Some block1) None"

definition edge_ft2 :: edge where
  "edge_ft2 = Edge FallthroughEdge (Some block0) (Some target_block) None"

definition graph_ft :: graph where
  "graph_ft = new_graph\<lparr>blocks := (blocks new_graph)(1 \<mapsto> block1),
     forward_edges := (forward_edges new_graph)(3 \<mapsto> [], 0 \<mapsto> [edge_ft1]),
     backward_edges := (backward_edges new_graph)(3 \<mapsto> [edge_ft1])\<rparr>"














text \<open>
  A second fallthrough edge from block 0 whose source is another block object with the
  label 0.
\<close>

definition edge_ft_other :: edge where
  "edge_ft_other = Edge FallthroughEdge (Some (Block 7 InsnBlock 0 [] False)) (Some block1) None"

text \<open>
  The method \<open>static int add(int a, int b) { return a + b; }\<close>: one block with
  \<open>iload_0\<close>, \<open>iload_1\<close> and \<open>iadd\<close>, and a fallthrough edge to the return block
  that carries \<open>ireturn\<close>.
\<close>

definition add_method :: method_info where
  "add_method = \<lparr>is_static = True, is_constructor = False, class_name = ''Test'',
     argument_types = [int_t, int_t]\<rparr>"

definition add_block :: block where
  "add_block = Block 0 InsnBlock 0 [iload 0, iload 1, iadd] False"

definition add_graph :: graph where
  "add_graph = new_graph\<lparr>entry_block := Some add_block,
     blocks := (blocks new_graph)(0 \<mapsto> add_block),
     forward_edges := (forward_edges new_graph)
       (0 \<mapsto> [Edge FallthroughEdge (Some add_block) (Some (return_block new_graph)) (Some ireturn)]),
     backward_edges := (backward_edges new_graph)
       (1 \<mapsto> [Edge FallthroughEdge (Some add_block) (Some (return_block new_graph)) (Some ireturn)])\<rparr>"






section \<open>Properties of the constant pool\<close>















section \<open>Properties of the frame operations\<close>

lemma frame0_simps:
  "stack frame0 = []" "max_stack frame0 = 0" "locals frame0 = Map.empty" "accesses frame0 = []"
  "max_locals frame0 = 0" "fsource frame0 = None" "top frame0 = Entry 0 None top_t None None"
  by (simp_all add: frame0_def new_frame_def new_entry_def world0_def)

lemma world1_simps: "next_id world1 = 1" "errors world1 = []"
  by (simp_all add: world1_def new_frame_def new_entry_def world0_def)

lemma frame_int0_simps:
  "locals frame_int0 0 = Some entry_int0" "accesses frame_int0 = [(False, 0, entry_int0)]"
  "max_locals frame_int0 = 1" "stack frame_int0 = []"
  by (simp_all add: frame_int0_def fset_def as_entry_def new_entry_def local_eq_def checked_def
      check_type_def frame0_simps world1_simps entry_int0_def)

text \<open>
  C6, as stated, fails for the frame: \<open>set\<close> returns at once when the local already holds
  an entry equal to the given one, and then no access is logged. Setting local 0 of
  \<open>frame_int0\<close> to the entry it holds leaves the one write access of the first \<open>set\<close>.
\<close>

theorem C6_set_same_entry_counterexample:
  "accesses (snd (fset lax_checker world_int0 frame_int0 0 (AnEntry entry_int0) None (ExpType top_t)))
     = [(False, 0, entry_int0)]"
  by (simp add: fset_def as_entry_def local_eq_def frame_int0_simps entry_eq.simps)

text \<open>
  C6, amended: a call \<open>Frame.set(index, entry)\<close> whose entry the local does not already
  equal appends a write access for that index to the frame's accesses and stores the entry
  (the given one, or its cast when the type check fails) at the index; when the stored
  entry's type is category 2 the frame's top is also stored at \<open>index + 1\<close>. Every call of
  \<open>State.set\<close> does so.
\<close>

theorem C6_set_records_write:
  assumes "as_entry w f a val = (e0, w0)"
    and "\<not> local_eq (locals f i) e0"
    and "checked chk w0 f exp e0 True = (e, w1)"
    and "fset chk w f i a val exp = (w', f')"
    and "s_as_entry s src sa sval parents merges = (se, s1)"
  shows "accesses f' = accesses f @ [(False, i, e)] \<and> locals f' i = Some e \<and>
         (internal_size (etype e) > 1 \<longrightarrow> locals f' (i + 1) = Some (top f)) \<and>
         local_accesses (s_set s src j sa sval parents merges)
           = local_accesses s @ [(j, s_locals s j, se, False)] \<and>
         s_locals (s_set s src j sa sval parents merges) j = Some se \<and>
         (internal_size (stype se) > 1 \<longrightarrow>
            s_locals (s_set s src j sa sval parents merges) (j + 1) = Some (s_top s))"
proof -
  have f': "f' = (let f1 = f\<lparr>locals := (locals f)(i \<mapsto> e), accesses := accesses f @ [(False, i, e)]\<rparr>;
                f2 = (if internal_size (etype e) > 1
                      then f1\<lparr>locals := (locals f1)(i + 1 \<mapsto> top f)\<rparr> else f1);
                idx = (if internal_size (etype e) > 1 then i + 2 else i + 1)
            in (if idx > max_locals f2 then f2\<lparr>max_locals := idx\<rparr> else f2))"
    using assms(1-4) by (simp add: fset_def Let_def)
  have frame_part: "accesses f' = accesses f @ [(False, i, e)] \<and> locals f' i = Some e \<and>
         (internal_size (etype e) > 1 \<longrightarrow> locals f' (i + 1) = Some (top f))"
    by (simp add: f' Let_def)
  have s1: "local_accesses s1 = local_accesses s" "s_locals s1 = s_locals s" "s_top s1 = s_top s"
    using assms(5) by (auto simp: s_as_entry_def split: sentry_or_type.splits)
  have state_part: "local_accesses (s_set s src j sa sval parents merges)
           = local_accesses s @ [(j, s_locals s j, se, False)] \<and>
         s_locals (s_set s src j sa sval parents merges) j = Some se \<and>
         (internal_size (stype se) > 1 \<longrightarrow>
            s_locals (s_set s src j sa sval parents merges) (j + 1) = Some (s_top s))"
    using assms(5) by (simp add: s_set_def Let_def s1)
  show ?thesis using frame_part state_part by blast
qed

theorem C6_set_records_write_witness:
  "accesses frame_int0 = accesses frame0 @ [(False, 0, entry_int0)] \<and>
   locals frame_int0 0 = Some entry_int0 \<and>
   local_accesses (s_set (new_state 0) None 0 (ASType long_t) None [] [])
     = [(0, None, SEntry 0 None long_t None [] [], False)] \<and>
   s_locals (s_set (new_state 0) None 0 (ASType long_t) None [] []) 1
     = Some (SEntry (-65536) None top_t None [] [])"
proof -
  have a: "as_entry world1 frame0 (AType int_t) None = (entry_int0, world1\<lparr>next_id := 2\<rparr>)"
    by (simp add: as_entry_def new_entry_def frame0_simps world1_simps entry_int0_def)
  have b: "\<not> local_eq (locals frame0 0) entry_int0"
    by (simp add: local_eq_def frame0_simps)
  have c: "checked lax_checker (world1\<lparr>next_id := 2\<rparr>) frame0 (ExpType top_t) entry_int0 True
             = (entry_int0, world1\<lparr>next_id := 2\<rparr>)"
    by (simp add: checked_def check_type_def)
  have d: "fset lax_checker world1 frame0 0 (AType int_t) None (ExpType top_t)
             = (world_int0, frame_int0)"
    by (simp add: world_int0_def frame_int0_def)
  have e: "s_as_entry (new_state 0) None (ASType long_t) None [] []
             = (SEntry 0 None long_t None [] [], (new_state 0)\<lparr>next_sid := 1\<rparr>)"
    by (simp add: s_as_entry_def new_state_def)
  show ?thesis
    using C6_set_records_write [OF a b c d e, of 0]
    by (simp add: new_state_def)
qed

text \<open>
  C9 at the failing input: \<open>swap\<close> on a frame with an empty stack, and on one that holds a
  single entry, leaves a stack longer than \<open>max_stack\<close>. (\<open>dup\<close> and \<open>dup2\<close> update
  \<open>max_stack\<close> after they add their placeholders; \<open>swap\<close> does not.)
\<close>

lemma swap_underflow_empty:
  "stack f = [] \<Longrightarrow>
   stack (snd (swap chk w f)) = [top f] \<and> max_stack (snd (swap chk w f)) = max_stack f"
  by (simp add: swap_def neg_index_def)

theorem C9_swap_exceeds_max_stack:
  "length (stack (snd (swap chk world1 frame0))) = 1 \<and> max_stack (snd (swap chk world1 frame0)) = 0"
  by (simp add: swap_def neg_index_def frame0_simps)


section \<open>Properties of the graph\<close>

lemma same_class_refl: "same_class k k"
  by (cases k) auto

lemma same_class_sym: "same_class a b \<Longrightarrow> same_class b a"
  by (cases a; cases b) auto

lemma same_class_trans: "same_class a b \<Longrightarrow> same_class b c \<Longrightarrow> same_class a c"
  by (cases a; cases b; cases c) auto

lemma same_class_limit: "same_class a b \<Longrightarrow> limit a = limit b"
  by (cases a; cases b) auto

lemma edge_eq_same_class: "edge_eq x y \<Longrightarrow> same_class (eclass x) (eclass y)"
  by (cases "eclass x"; cases "eclass y") (auto simp: edge_eq_def)

lemma edge_eq_refl: "edge_eq x x"
  by (cases "eclass x") (auto simp: edge_eq_def block_eq_def split: option.splits)

text \<open>
  \<open>connect\<close> for an edge that passes the checks: the limit is enforced on the out-edges
  that \<open>_forward_edges\<close> holds for the source block, and the edge is stored.
\<close>

lemma connect_check_passes: "checked_edge g e fb tb \<Longrightarrow> connect_check g e = Inr g"
  by (auto simp: checked_edge_def connect_check_def block_eq_def g_add_def)

lemma connect_steps:
  assumes "checked_edge g e fb tb" and "forward_edges g (bid fb) = Some fw"
  shows "connect g e overwrite =
           (case enforce_limit g fw e overwrite True of
              Inl err \<Rightarrow> Inl err
            | Inr g3 \<Rightarrow> store_edge g3 fb e)"
  using assms connect_check_passes [OF assms(1)]
  by (simp add: connect_def g_connect_def checked_edge_def)

lemma store_edge_result:
  assumes "eto e = Some tb" and "forward_edges g (bid fb) = Some fw"
    and "backward_edges g (bid tb) = Some bw"
  shows "store_edge g fb e =
           Inr (g\<lparr>forward_edges := (forward_edges g)(bid fb \<mapsto> set_add fw e),
                  backward_edges := (backward_edges g)(bid tb \<mapsto> set_add bw e)\<rparr>)"
  using assms by (simp add: store_edge_def)

lemma connect_at_limit_raises:
  assumes "checked_edge g e fb tb" and "forward_edges g (bid fb) = Some fw"
    and "limit (eclass e) = Some n" and "n \<le> length (conflicts_of fw e)"
  shows "connect g e False = Inl (ValueError ''Cannot add edge, limit reached. Use overwrite=True.'')"
  using assms(3,4) by (simp add: connect_steps [OF assms(1,2)] enforce_limit_def)

lemma connect_accepts:
  assumes "checked_edge g e fb tb" and "forward_edges g (bid fb) = Some fw"
    and "backward_edges g (bid tb) = Some bw"
    and "limit (eclass e) = None \<or> (\<exists>n. limit (eclass e) = Some n \<and> length (conflicts_of fw e) < n)"
  shows "connect g e overwrite =
           Inr (g\<lparr>forward_edges := (forward_edges g)(bid fb \<mapsto> set_add fw e),
                  backward_edges := (backward_edges g)(bid tb \<mapsto> set_add bw e)\<rparr>)"
proof -
  have "enforce_limit g fw e overwrite True = Inr g"
    using assms(4) by (auto simp: enforce_limit_def)
  moreover have "eto e = Some tb" using assms(1) by (simp add: checked_edge_def)
  ultimately show ?thesis
    using store_edge_result [OF _ assms(2,3)] by (simp add: connect_steps [OF assms(1,2)])
qed

lemma connect_overwrite_opaque:
  assumes "checked_edge g e fb tb" and "forward_edges g (bid fb) = Some fw"
    and "limit (eclass e) = Some n" and "n \<le> length (conflicts_of fw e)"
    and "conflicts_of fw e = c # cs" and "eto c = None"
  shows "connect g e True = Inl AttributeError"
proof -
  have "disconnect g c = Inl AttributeError"
    using assms(6) by (simp add: disconnect_def split: option.splits)
  then have "enforce_limit g fw e True True = Inl AttributeError"
    using assms(3,4,5) by (simp add: enforce_limit_def)
  then show ?thesis by (simp add: connect_steps [OF assms(1,2)])
qed

lemma same_edge_refl: "same_edge x x"
  by (cases "eclass x") (auto simp: same_edge_def same_ends_def edge_eq_def block_eq_def split: option.splits)

lemma connect_overwrite_one:
  assumes "checked_edge g e fb tb" and "forward_edges g (bid fb) = Some fw"
    and "limit (eclass e) = Some n" and "n \<le> length (conflicts_of fw e)"
    and "conflicts_of fw e = [c]" and "efrom c = Some fb" and "eto c = Some tc"
    and "label tc \<in> dom (blocks g)"
    and "backward_edges g (bid tc) = Some bwc" and "backward_edges g (bid tb) = Some bw"
  shows "connect g e True =
           Inr (g\<lparr>forward_edges := (forward_edges g)(bid fb \<mapsto> set_add (set_remove fw c) e),
                  backward_edges :=
                    (backward_edges g)
                      (bid tc \<mapsto> set_remove bwc c,
                       bid tb \<mapsto> set_add (if bid tb = bid tc then set_remove bwc c else bw) e)\<rparr>)"
proof -
  have lf: "label fb \<in> dom (blocks g)" using assms(1) by (simp add: checked_edge_def)
  have "c \<in> set (conflicts_of fw e)" using assms(5) by simp
  then have cin: "c \<in> set fw" by (simp add: conflicts_of_def)
  then have in_fw: "set_in fw c" using same_edge_refl by (auto simp: set_in_def)
  define g1 where "g1 = g\<lparr>forward_edges := (forward_edges g)(bid fb \<mapsto> set_remove fw c)\<rparr>"
  have rf: "remove_forward (setdefault_block (setdefault_block g fb) tc) (bid fb) c = g1"
    using lf assms(8) assms(2) in_fw by (simp add: setdefault_block_def remove_forward_def g1_def)
  define g2 where "g2 = (if set_in bwc c
      then g1\<lparr>backward_edges := (backward_edges g1)(bid tc \<mapsto> set_remove bwc c)\<rparr> else g1)"
  have rb: "remove_backward g1 (bid tc) c = g2"
    using assms(9) by (simp add: remove_backward_def g1_def g2_def)
  have absent: "\<not> set_in bwc c \<Longrightarrow> set_remove bwc c = bwc"
    by (induction bwc) (auto simp: set_in_def set_remove_def)
  have g2': "g2 = g\<lparr>forward_edges := (forward_edges g)(bid fb \<mapsto> set_remove fw c),
                   backward_edges := (backward_edges g)(bid tc \<mapsto> set_remove bwc c)\<rparr>"
  proof (cases "set_in bwc c")
    case True
    then show ?thesis by (simp add: g2_def g1_def)
  next
    case False
    have "(backward_edges g)(bid tc \<mapsto> bwc) = backward_edges g"
      using assms(9) by (simp add: map_upd_triv)
    then show ?thesis using False absent by (simp add: g2_def g1_def)
  qed
  have d: "disconnect g c = Inr g2"
    using assms(6,7) rf rb by (simp add: disconnect_def)
  have el: "enforce_limit g fw e True True = Inr g2"
    using assms(3,4,5) d by (simp add: enforce_limit_def)
  have to: "eto e = Some tb" using assms(1) by (simp add: checked_edge_def)
  have "store_edge g2 fb e =
      Inr (g2\<lparr>forward_edges := (forward_edges g2)(bid fb \<mapsto> set_add (set_remove fw c) e),
              backward_edges := (backward_edges g2)
                (bid tb \<mapsto> set_add (if bid tb = bid tc then set_remove bwc c else bw) e)\<rparr>)"
    using assms(10) by (intro store_edge_result [OF to]) (auto simp: g2')
  then show ?thesis
    using el by (simp add: connect_steps [OF assms(1,2)] g2')
qed

text \<open>
  The out-edges are looked up by the source block itself: for a block object that has no
  entry \<open>connect\<close> raises \<open>KeyError\<close>, also when a block with its label is in the graph.
\<close>

lemma connect_unregistered_source:
  assumes "checked_edge g e fb tb" and "forward_edges g (bid fb) = None"
  shows "connect g e overwrite = Inl (KeyError (label fb))"
  using assms connect_check_passes [OF assms(1)]
  by (simp add: connect_def g_connect_def checked_edge_def)

lemma connect_other_object:
  "connect graph_ft edge_ft_other overwrite = Inl (KeyError 0)"
  using connect_unregistered_source
    [of graph_ft edge_ft_other "Block 7 InsnBlock 0 [] False" block1 overwrite]
  by (simp add: checked_edge_def edge_ft_other_def graph_ft_def new_graph_def block1_def
      block_eq_def)

text \<open>
  A set of edges goes by the identity of the blocks too: an edge that is equal to a stored
  one, but leaves another block object, is not found.
\<close>

lemma set_in_by_identity:
  "edge_eq edge_ft1 edge_ft_other \<and> \<not> set_in [edge_ft1] edge_ft_other \<and> set_in [edge_ft1] edge_ft1"
  by (simp add: set_in_def same_edge_def same_ends_def edge_eq_def block_eq_def edge_ft1_def
      edge_ft_other_def block0_def block1_def)


lemma disconnect_blocks_mono:
  "disconnect g e = Inr g' \<Longrightarrow> dom (blocks g) \<subseteq> dom (blocks g')"
  by (auto simp: disconnect_def setdefault_block_def remove_forward_def remove_backward_def split: option.splits if_splits)

lemma disconnect_adds_from:
  "disconnect g e = Inr g' \<Longrightarrow> efrom e = Some b \<Longrightarrow> label b \<in> dom (blocks g')"
  by (auto simp: disconnect_def setdefault_block_def remove_forward_def remove_backward_def split: option.splits if_splits)

lemma disconnect_all_blocks_mono:
  "disconnect_all g es = Inr g' \<Longrightarrow> dom (blocks g) \<subseteq> dom (blocks g')"
proof (induction es arbitrary: g)
  case Nil
  then show ?case by simp
next
  case (Cons e es)
  then obtain g1 where g1: "disconnect g e = Inr g1" "disconnect_all g1 es = Inr g'"
    by (auto split: sum.splits)
  from disconnect_blocks_mono [OF g1(1)] Cons.IH [OF g1(2)] show ?case by blast
qed

lemma remove_keeps_block_with_out_edge:
  assumes "forward_edges g (bid b) = Some (e # es)" and "efrom e = Some b"
    and "remove g b = Inr g'"
  shows "label b \<in> dom (blocks g')"
proof -
  let ?g2 = "(if block_eq (Some b) (entry_block (g\<lparr>blocks := (blocks g)(label b := None)\<rparr>))
             then g\<lparr>blocks := (blocks g)(label b := None), entry_block := None\<rparr>
             else g\<lparr>blocks := (blocks g)(label b := None)\<rparr>)"
  have fw: "forward_edges ?g2 (bid b) = Some (e # es)"
    using assms(1) by simp
  have "disconnect_all (?g2\<lparr>forward_edges := (forward_edges ?g2)(bid b := None)\<rparr>) (e # es) = Inr g'"
    using assms(3) fw
    by (auto simp: remove_def g_remove_def Let_def split: if_splits option.splits)
  then obtain g1 where g1: "disconnect (?g2\<lparr>forward_edges := (forward_edges ?g2)(bid b := None)\<rparr>) e = Inr g1"
    "disconnect_all g1 es = Inr g'"
    by (auto split: sum.splits)
  have "label b \<in> dom (blocks g1)"
    using disconnect_adds_from [OF g1(1) assms(2)] .
  then show ?thesis
    using disconnect_all_blocks_mono [OF g1(2)] by blast
qed

text \<open>
  C10 at the failing input: the assembler routes a long jump through a temporary block by
  \<open>graph.jump(intermediary, target, goto_w)\<close> and later calls \<open>remove(intermediary)\<close>.
  \<open>remove\<close> deletes the block from \<open>_blocks\<close> and then disconnects its out-edges, and
  \<open>_disconnect\<close> puts the source block of each edge back (\<open>setdefault\<close>): the temporary
  block 65336, absent before, is among the blocks afterwards.
\<close>

theorem C10_temporary_block_not_removed:
  "map_sum id (\<lambda>g. blocks g 65336) graph_t = Inr None \<and>
   map_sum id (\<lambda>g. blocks g 65336)
     (bind_err (bind_err graph_t (\<lambda>g. jump g tmp_block target_block (goto_w None) True))
        (\<lambda>g. remove g tmp_block)) = Inr (Some tmp_block)"
  by (simp add: graph_t_def g_add_def new_graph_def target_block_def tmp_block_def jump_def
      connect_def g_connect_def connect_check_def enforce_limit_def store_edge_def block_eq_def
      conflicts_of_def set_add_def set_in_def same_edge_def same_ends_def
      remove_def g_remove_def disconnect_def setdefault_block_def edge_eq_def set_remove_def
      remove_forward_def remove_backward_def)

section \<open>Properties of the assembler\<close>

lemma conditional_not_goto_w: "is_conditional insn \<Longrightarrow> \<not> is_goto_w insn"
  by (cases insn) auto

lemma conditional_not_inlined: "is_conditional insn \<Longrightarrow> can_inline g (is_conditional insn) e = Inr False"
  by (simp add: can_inline_def)








section \<open>Properties of the trace\<close>

text \<open>
  C2 at the failing input: for the method \<open>add\<close> the frame-based trace returns with
  \<open>max_stack = 2\<close> and \<open>max_locals = 2\<close>; the state-based trace returns with
  \<open>max_stack = 3\<close>, since \<open>State.push\<close> takes the stack size to be
  \<open>len(self.stack) + 1\<close>.
\<close>

theorem C2_trace_of_add:
  "map_option (map_sum id (\<lambda>t. (tmax_stack t, tmax_locals t)))
     (from_graph 10 lax_checker add_graph add_method) = Some (Inr (2, 2)) \<and>
   map_option (map_sum id (\<lambda>t. (smax_stack t, smax_locals t)))
     (s_from_graph 10 lax_checker add_graph add_method) = Some (Inr (3, 2))"
  by code_simp



section \<open>Properties of the codec of UTF8 constants\<close>

text \<open>
  Writing replaces every zero byte by \<open>C0 80\<close>, and reading undoes it on bytes that hold
  no \<open>C0\<close> of their own, as the encoder's output does.
\<close>

lemma replace_zero: "bytes_replace [0] [0xC0, 0x80] xs = concat (map escape_zero xs)"
proof (induction xs)
  case Nil
  then show ?case by (simp add: bytes_replace.simps)
next
  case (Cons x xs)
  then show ?case
    by (subst bytes_replace.simps) (auto simp: escape_zero_def [abs_def])
qed

lemma replace_escape:
  "0xC0 \<notin> set xs \<Longrightarrow> bytes_replace [0xC0, 0x80] [0] (concat (map escape_zero xs)) = xs"
proof (induction xs)
  case Nil
  then show ?case by (simp add: bytes_replace.simps)
next
  case (Cons x xs)
  then have IH: "bytes_replace [0xC0, 0x80] [0] (concat (map escape_zero xs)) = xs"
    and x: "x \<noteq> 0xC0" by auto
  show ?case
  proof (cases "x = 0")
    case True
    then show ?thesis
      using IH by (subst bytes_replace.simps) (simp add: escape_zero_def)
  next
    case False
    then have "concat (map escape_zero (x # xs)) = x # concat (map escape_zero xs)"
      by (simp add: escape_zero_def)
    moreover have "take 2 (x # concat (map escape_zero xs)) \<noteq> [0xC0, 0x80]"
      using x by (cases "concat (map escape_zero xs)") auto
    ultimately show ?thesis
      using IH by (subst bytes_replace.simps) simp
  qed
qed

lemma encode_cp_no_C0: "encode_cp cp = Inr bs \<Longrightarrow> 0xC0 \<notin> set bs"
  by (auto simp: encode_cp_def split: if_splits)

lemma utf8_encode_no_C0: "utf8_encode s = Inr bs \<Longrightarrow> 0xC0 \<notin> set bs"
proof (induction s arbitrary: bs)
  case Nil
  then show ?case by simp
next
  case (Cons cp s)
  then obtain b r where "encode_cp cp = Inr b" "utf8_encode s = Inr r" "bs = b @ r"
    by (auto split: sum.splits)
  then show ?case using Cons.IH encode_cp_no_C0 by auto
qed

lemma decode1: "a < 0x80 \<Longrightarrow> utf8_decode (a # r) = a # utf8_decode r"
  by simp

lemma decode2:
  "x < 32 \<Longrightarrow> 2 \<le> x \<Longrightarrow> y < 64 \<Longrightarrow>
   utf8_decode ((0xC0 + x) # (0x80 + y) # r) = (x * 64 + y) # utf8_decode r"
  by (simp add: is_continuation_def)

lemma decode3:
  "x < 16 \<Longrightarrow> y < 64 \<Longrightarrow> z < 64 \<Longrightarrow> (x = 0 \<Longrightarrow> 32 \<le> y) \<Longrightarrow> (x = 13 \<Longrightarrow> y < 32) \<Longrightarrow>
   utf8_decode ((0xE0 + x) # (0x80 + y) # (0x80 + z) # r) = (x * 4096 + y * 64 + z) # utf8_decode r"
  by (cases "x = 0"; cases "x = 13"; simp add: is_continuation_def)

lemma decode4:
  "x < 5 \<Longrightarrow> y < 64 \<Longrightarrow> z < 64 \<Longrightarrow> w < 64 \<Longrightarrow> (x = 0 \<Longrightarrow> 16 \<le> y) \<Longrightarrow> (x = 4 \<Longrightarrow> y < 16) \<Longrightarrow>
   utf8_decode ((0xF0 + x) # (0x80 + y) # (0x80 + z) # (0x80 + w) # r)
     = (x * 262144 + y * 4096 + z * 64 + w) # utf8_decode r"
  by (cases "x = 0"; cases "x = 4"; simp add: is_continuation_def)

lemma split3: "(cp::nat) div 4096 * 4096 + (cp div 64) mod 64 * 64 + cp mod 64 = cp"
proof -
  have "cp mod 4096 = 64 * (cp div 64 mod 64) + cp mod 64"
    using mod_mult2_eq [of cp 64 64] by simp
  moreover have "cp div 4096 * 4096 + cp mod 4096 = cp" by simp
  ultimately show ?thesis by simp
qed

lemma split4:
  "(cp::nat) div 262144 * 262144 + (cp div 4096) mod 64 * 4096 + (cp div 64) mod 64 * 64 + cp mod 64 = cp"
proof -
  have "cp mod 262144 = 4096 * (cp div 4096 mod 64) + cp mod 4096"
    using mod_mult2_eq [of cp 4096 64] by simp
  moreover have "cp mod 4096 = 64 * (cp div 64 mod 64) + cp mod 64"
    using mod_mult2_eq [of cp 64 64] by simp
  moreover have "cp div 262144 * 262144 + cp mod 262144 = cp" by simp
  ultimately show ?thesis by simp
qed

lemma mid3: "(cp::nat) div 64 mod 64 = (cp mod 4096) div 64"
  using div_mult2_eq [of cp 64 64] mod_mult2_eq [of cp 64 64] by simp

lemma mid4: "(cp::nat) div 4096 mod 64 = (cp mod 262144) div 4096"
  using mod_mult2_eq [of cp 4096 64] by simp

lemma b3: "(cp::nat) div 4096 = 0 \<Longrightarrow> 0x800 \<le> cp \<Longrightarrow> 32 \<le> (cp div 64) mod 64"
proof -
  assume a: "cp div 4096 = 0" "0x800 \<le> cp"
  then have "cp < 4096" by (simp add: div_eq_0_iff)
  then have "cp mod 4096 = cp" by simp
  then show ?thesis using a(2) by (simp add: mid3)
qed

lemma c3: "(cp::nat) div 4096 = 13 \<Longrightarrow> cp < 0xD800 \<Longrightarrow> (cp div 64) mod 64 < 32"
proof -
  assume a: "cp div 4096 = 13" "cp < 0xD800"
  have "cp div 4096 * 4096 + cp mod 4096 = cp" by simp
  then have "cp mod 4096 < 2048" using a by linarith
  then show ?thesis by (simp add: mid3)
qed

lemma c3': "(cp::nat) div 4096 = 13 \<Longrightarrow> 0xDFFF < cp \<Longrightarrow> False"
proof -
  assume a: "cp div 4096 = 13" "0xDFFF < cp"
  have "cp div 4096 * 4096 + cp mod 4096 = cp" by simp
  moreover have "cp mod 4096 < 4096" by simp
  ultimately show False using a by linarith
qed

lemma b4: "(cp::nat) div 262144 = 0 \<Longrightarrow> 0x10000 \<le> cp \<Longrightarrow> 16 \<le> (cp div 4096) mod 64"
proof -
  assume a: "cp div 262144 = 0" "0x10000 \<le> cp"
  then have "cp < 262144" by (simp add: div_eq_0_iff)
  then have "cp mod 262144 = cp" by simp
  then show ?thesis using a(2) by (simp add: mid4)
qed

lemma c4: "(cp::nat) div 262144 = 4 \<Longrightarrow> cp \<le> 0x10FFFF \<Longrightarrow> (cp div 4096) mod 64 < 16"
proof -
  assume a: "cp div 262144 = 4" "cp \<le> 0x10FFFF"
  have "cp div 262144 * 262144 + cp mod 262144 = cp" by simp
  then have "cp mod 262144 < 65536" using a by linarith
  then show ?thesis by (simp add: mid4)
qed

lemma a2: "0x80 \<le> (cp::nat) \<Longrightarrow> cp < 0x800 \<Longrightarrow> 2 \<le> cp div 64 \<and> cp div 64 < 32"
  by (simp add: less_mult_imp_div_less le_div_geq) 

lemma a3: "(cp::nat) < 0x10000 \<Longrightarrow> cp div 4096 < 16"
  by (simp add: less_mult_imp_div_less)

lemma a4: "(cp::nat) \<le> 0x10FFFF \<Longrightarrow> cp div 262144 < 5"
  by (simp add: less_mult_imp_div_less)


declare utf8_decode.simps(2) [simp del]

lemma decode_encode_cp:
  assumes "encode_cp cp = Inr bs"
  shows "utf8_decode (bs @ rest) = cp # utf8_decode rest"
proof -
  consider "cp < 0x80" | "0x80 \<le> cp" "cp < 0x800" | "0x800 \<le> cp" "cp < 0xD800"
    | "0xDFFF < cp" "cp < 0x10000" | "0x10000 \<le> cp" "cp \<le> 0x10FFFF"
    using assms by (auto simp: encode_cp_def split: if_splits) 
  then show ?thesis
  proof cases
    case 1
    then have "bs = [cp]" using assms by (auto simp: encode_cp_def)
    then show ?thesis using decode1 [OF 1] by simp
  next
    case 2
    then have bs: "bs = [0xC0 + cp div 64, 0x80 + cp mod 64]"
      using assms by (auto simp: encode_cp_def)
    have a: "2 \<le> cp div 64" "cp div 64 < 32" using a2 [OF 2] by auto
    have d: "cp div 64 * 64 + cp mod 64 = cp" by simp
    show ?thesis
      unfolding bs using decode2 [of "cp div 64" "cp mod 64" rest] a d by simp
  next
    case 3
    then have bs: "bs = [0xE0 + cp div 4096, 0x80 + (cp div 64) mod 64, 0x80 + cp mod 64]"
      using assms by (auto simp: encode_cp_def)
    have a: "cp div 4096 < 16" using 3 a3 by auto
    show ?thesis
      unfolding bs 
      using decode3 [of "cp div 4096" "(cp div 64) mod 64" "cp mod 64" rest,
                     OF a _ _ b3 [OF _ 3(1)] c3 [OF _ 3(2)]] split3 [of cp]
      by simp
  next
    case 4
    then have bs: "bs = [0xE0 + cp div 4096, 0x80 + (cp div 64) mod 64, 0x80 + cp mod 64]"
      using assms by (auto simp: encode_cp_def)
    have a: "cp div 4096 < 16" using 4 a3 by auto
    have b: "cp div 4096 = 0 \<Longrightarrow> 32 \<le> (cp div 64) mod 64" using b3 [of cp] 4 by simp
    have c: "cp div 4096 = 13 \<Longrightarrow> (cp div 64) mod 64 < 32" using c3' [of cp] 4 by simp
    show ?thesis
      unfolding bs 
      using decode3 [of "cp div 4096" "(cp div 64) mod 64" "cp mod 64" rest, OF a _ _ b c]
        split3 [of cp]
      by simp
  next
    case 5
    then have bs: "bs = [0xF0 + cp div 262144, 0x80 + (cp div 4096) mod 64, 0x80 + (cp div 64) mod 64,
                  0x80 + cp mod 64]"
      using assms by (auto simp: encode_cp_def)
    have a: "cp div 262144 < 5" using a4 [OF 5(2)] .
    show ?thesis
      unfolding bs
      using decode4 [of "cp div 262144" "(cp div 4096) mod 64" "(cp div 64) mod 64" "cp mod 64" rest,
                     OF a _ _ _ b4 [OF _ 5(1)] c4 [OF _ 5(2)]] split4 [of cp]
      by simp
  qed
qed

lemma decode_encode: "utf8_encode s = Inr bs \<Longrightarrow> utf8_decode bs = s"
proof (induction s arbitrary: bs)
  case Nil
  then show ?case by simp
next
  case (Cons cp s)
  then obtain b r where br: "encode_cp cp = Inr b" "utf8_encode s = Inr r" "bs = b @ r"
    by (auto split: sum.splits)
  show ?case
    using decode_encode_cp [OF br(1), of r] Cons.IH [OF br(2)] br(3) by simp
qed

lemma read_payload: "utf8_payload v = Inr bs \<Longrightarrow> utf8_read_value bs = v"
proof -
  assume "utf8_payload v = Inr bs"
  then obtain e where e: "utf8_encode v = Inr e" "bs = concat (map escape_zero e)"
    by (cases "utf8_encode v") (auto simp: utf8_payload_def replace_zero)
  show ?thesis
    using replace_escape [OF utf8_encode_no_C0 [OF e(1)]] decode_encode [OF e(1)]
    by (simp add: utf8_read_value_def e(2))
qed

text \<open>
  What was written is read back: the value survives the round trip, whatever follows in
  the buffer. Reading never fails on the content of the constant, and an invalid start byte
  is dropped.
\<close>

lemma unpack_pack_H: "pack_H n = Inr bs \<Longrightarrow> unpack_H bs = Inr n"
  by (auto simp: pack_H_def unpack_H_def split: if_splits)

lemma pack_H_length: "pack_H n = Inr bs \<Longrightarrow> length bs = 2"
  by (auto simp: pack_H_def split: if_splits)

lemma utf8_read_write:
  assumes "utf8_write v = Inr out"
  shows "utf8_read (out @ rest) = Inr (UTF8 v, rest)"
proof -
  obtain bs n where p: "utf8_payload v = Inr bs" "pack_H (length bs) = Inr n" "out = n @ bs"
    using assms by (auto simp: utf8_write_def split: sum.splits)
  have "buffer_read (out @ rest) 2 = (n, bs @ rest)"
    using pack_H_length [OF p(2)] by (simp add: buffer_read_def p(3))
  moreover have "buffer_read (bs @ rest) (length bs) = (bs, rest)"
    by (simp add: buffer_read_def)
  ultimately show ?thesis
    using unpack_pack_H [OF p(2)] read_payload [OF p(1)] by (simp add: utf8_read_def)
qed

lemma utf8_write_zero: "utf8_write [0] = Inr [0, 2, 0xC0, 0x80]"
  by (simp add: utf8_write_def utf8_payload_def encode_cp_def replace_zero escape_zero_def pack_H_def)

lemma utf8_read_never_fails_on_content:
  assumes "pack_H (length bs) = Inr n"
  shows "utf8_read (n @ bs @ rest) = Inr (UTF8 (utf8_read_value bs), rest)"
proof -
  have "buffer_read (n @ bs @ rest) 2 = (n, bs @ rest)"
    using pack_H_length [OF assms] by (simp add: buffer_read_def)
  moreover have "buffer_read (bs @ rest) (length bs) = (bs, rest)"
    by (simp add: buffer_read_def)
  ultimately show ?thesis
    using unpack_pack_H [OF assms] by (simp add: utf8_read_def)
qed

lemma utf8_decode_skips_invalid_start:
  "(0x80 \<le> b \<and> b < 0xC2) \<or> 0xF5 \<le> b \<Longrightarrow> utf8_decode (b # rest) = utf8_decode rest"
  by (auto simp: utf8_decode.simps(2))

text \<open>The bytes of a surrogate, which the decoder drops.\<close>

lemma replace_absent:
  "0xC0 \<notin> set xs \<Longrightarrow> bytes_replace [0xC0, 0x80] [0] xs = xs"
proof (induction xs)
  case Nil
  then show ?case by (simp add: bytes_replace.simps)
next
  case (Cons x xs)
  then show ?case by (subst bytes_replace.simps) auto
qed

lemma surrogate_bytes:
  assumes "0xD800 \<le> (s::nat)" and "s \<le> 0xDFFF"
  shows "s div 4096 = 13" and "32 \<le> (s div 64) mod 64"
proof -
  show d: "s div 4096 = 13" using assms by simp
  have "s div 4096 * 4096 + s mod 4096 = s" by simp
  then have "2048 \<le> s mod 4096" using assms d by linarith
  then show "32 \<le> (s div 64) mod 64" by (simp add: mid3)
qed

lemma decode_surrogate:
  assumes "32 \<le> y" and "y < 64" and "z < 64"
  shows "utf8_decode (0xED # (0x80 + y) # (0x80 + z) # r) = utf8_decode r"
proof -
  have "utf8_decode (0xED # (0x80 + y) # (0x80 + z) # r) = utf8_decode ((0x80 + y) # (0x80 + z) # r)"
    using assms by (simp add: utf8_decode.simps(2) is_continuation_def)
  also have "\<dots> = utf8_decode ((0x80 + z) # r)"
    using assms by (simp add: utf8_decode.simps(2))
  also have "\<dots> = utf8_decode r"
    using assms by (simp add: utf8_decode.simps(2))
  finally show ?thesis .
qed

lemma decode_surrogate_cp:
  assumes "0xD800 \<le> (s::nat)" and "s \<le> 0xDFFF"
  shows "utf8_decode ((0xE0 + s div 4096) # (0x80 + (s div 64) mod 64) # (0x80 + s mod 64) # r)
           = utf8_decode r"
  using decode_surrogate [of "(s div 64) mod 64" "s mod 64" r] surrogate_bytes [OF assms]
  by simp

lemma surrogate_no_C0:
  assumes "0xD800 \<le> (s::nat)" and "s \<le> 0xDFFF"
  shows "0xC0 \<notin> set [0xE0 + s div 4096, 0x80 + (s div 64) mod 64, 0x80 + s mod 64]"
proof -
  have "(s div 64) mod 64 < 64" "s mod 64 < 64" by simp_all
  then show ?thesis using surrogate_bytes(1) [OF assms] by auto
qed

lemma supplementary_payload:
  assumes "0x10000 \<le> cp" and "cp \<le> 0x10FFFF"
  shows "utf8_payload [cp] = Inr [0xF0 + cp div 262144, 0x80 + (cp div 4096) mod 64,
                                 0x80 + (cp div 64) mod 64, 0x80 + cp mod 64]"
  using assms by (simp add: utf8_payload_def encode_cp_def replace_zero escape_zero_def)

text \<open>
  Claim C4. Writing a UTF8 constant does not encode a supplementary code point as a pair of
  surrogates: \<open>write\<close> emits the four-byte form of standard UTF-8, which differs from the
  six bytes of the surrogate pair; and \<open>read\<close> drops the six bytes of a surrogate pair, so
  the code point is lost. (The other parts of the claim hold: U+0000 is written as
  \<open>C0 80\<close> and read back, and reading skips ill-formed bytes; see the lemmas above.)
\<close>

theorem C4_supplementary_not_surrogate_pair:
  assumes "0x10000 \<le> cp" and "cp \<le> 0x10FFFF"
  shows "utf8_payload [cp] = Inr [0xF0 + cp div 262144, 0x80 + (cp div 4096) mod 64,
                                 0x80 + (cp div 64) mod 64, 0x80 + cp mod 64]
       \<and> utf8_payload [cp] \<noteq> Inr (cesu8_surrogate_pair cp)
       \<and> utf8_read_value (cesu8_surrogate_pair cp) = []"
proof -
  define hi where "hi = 0xD800 + (cp - 0x10000) div 1024"
  define lo where "lo = 0xDC00 + (cp - 0x10000) mod 1024"
  have "(cp - 0x10000) div 1024 < 1024" using assms by (simp add: less_mult_imp_div_less)
  then have hi: "0xD800 \<le> hi" "hi \<le> 0xDFFF" by (simp_all add: hi_def)
  have "(cp - 0x10000) mod 1024 < 1024" by simp
  then have lo: "0xD800 \<le> lo" "lo \<le> 0xDFFF" by (simp_all add: lo_def)
  have pair: "cesu8_surrogate_pair cp =
      [0xE0 + hi div 4096, 0x80 + (hi div 64) mod 64, 0x80 + hi mod 64]
      @ [0xE0 + lo div 4096, 0x80 + (lo div 64) mod 64, 0x80 + lo mod 64]"
    by (simp add: cesu8_surrogate_pair_def hi_def lo_def Let_def)
  have "0xC0 \<notin> set (cesu8_surrogate_pair cp)"
    unfolding pair set_append using surrogate_no_C0 [OF hi] surrogate_no_C0 [OF lo] by blast
  then have "utf8_read_value (cesu8_surrogate_pair cp) = utf8_decode (cesu8_surrogate_pair cp)"
    by (simp add: utf8_read_value_def replace_absent)
  also have "\<dots> = []"
    unfolding pair using decode_surrogate_cp [OF hi] decode_surrogate_cp [OF lo, of "[]"] by simp
  finally have r: "utf8_read_value (cesu8_surrogate_pair cp) = []" .
  define four where "four = [0xF0 + cp div 262144, 0x80 + (cp div 4096) mod 64,
                              0x80 + (cp div 64) mod 64, 0x80 + cp mod 64]"
  have six: "length (cesu8_surrogate_pair cp) = 6" by (simp add: pair)
  have "cesu8_surrogate_pair cp \<noteq> four"
  proof
    assume e: "cesu8_surrogate_pair cp = four"
    have "length four = 4" by (simp add: four_def)
    with e six show False by simp
  qed
  moreover have "utf8_payload [cp] = Inr four"
    using supplementary_payload [OF assms] by (simp add: four_def)
  ultimately have n: "utf8_payload [cp] \<noteq> Inr (cesu8_surrogate_pair cp)" by simp
  show ?thesis using supplementary_payload [OF assms] n r by blast
qed

theorem C4_supplementary_not_surrogate_pair_witness:
  "utf8_payload [0x1F600] = Inr [0xF0, 0x9F, 0x98, 0x80]
   \<and> cesu8_surrogate_pair 0x1F600 = [0xED, 0xA0, 0xBD, 0xED, 0xB8, 0x80]
   \<and> utf8_read_value [0xED, 0xA0, 0xBD, 0xED, 0xB8, 0x80] = []"
proof -
  have c: "cesu8_surrogate_pair 0x1F600 = [0xED, 0xA0, 0xBD, 0xED, 0xB8, 0x80]"
    by (simp add: cesu8_surrogate_pair_def)
  show ?thesis
    using C4_supplementary_not_surrogate_pair [of "0x1F600"] unfolding c by simp
qed

section \<open>Properties of reading the constant pool\<close>

text \<open>
  A closure that returns a constant has dereferenced every index it refers to, and a
  dereference that returns has not met an index of \<open>visited\<close> on any path of references:
  a slot on a cycle of references is never dereferenced, and \<open>read\<close> raises.
\<close>

lemma call_success_refs:
  "call l f = Inr c \<Longrightarrow> k \<in> set (refs l) \<Longrightarrow> \<exists>c'. f k = Inr c'"
  by (cases l) (auto split: sum.splits)

lemma dynamic_deref_success:
  assumes "dynamic_deref ls visited i = Inr c"
  shows "i \<notin> set visited"
    and "\<exists>l. map_of ls i = Some l \<and> call l (dynamic_deref ls (visited @ [i])) = Inr c"
  using assms by (auto simp: dynamic_deref.simps [of ls visited i] split: if_splits option.splits)

lemma dynamic_deref_refers:
  assumes "dynamic_deref ls visited i = Inr c" and "refers ls i k"
  shows "\<exists>c'. dynamic_deref ls (visited @ [i]) k = Inr c'"
proof -
  obtain l where l: "map_of ls i = Some l" "call l (dynamic_deref ls (visited @ [i])) = Inr c"
    using dynamic_deref_success(2) [OF assms(1)] by blast
  have "k \<in> set (refs l)" using assms(2) l(1) by (simp add: refers_def)
  then show ?thesis using call_success_refs [OF l(2)] by blast
qed

lemma dynamic_deref_reaches_unvisited:
  "dynamic_deref ls visited i = Inr c \<Longrightarrow> (refers ls)\<^sup>*\<^sup>* i j \<Longrightarrow> j \<notin> set visited"
proof (induction ls visited i arbitrary: c rule: dynamic_deref.induct)
  case (1 lookups visited idx)
  from "1.prems"(2) show ?case
  proof (cases rule: converse_rtranclpE)
    case base
    then show ?thesis using dynamic_deref_success(1) [OF "1.prems"(1)] by simp
  next
    case (step k)
    obtain l where l: "map_of lookups idx = Some l"
      using dynamic_deref_success(2) [OF "1.prems"(1)] by blast
    obtain c' where "dynamic_deref lookups (visited @ [idx]) k = Inr c'"
      using dynamic_deref_refers [OF "1.prems"(1) step(1)] by blast
    then have "j \<notin> set (visited @ [idx])"
      using "1.IH" [OF dynamic_deref_success(1) [OF "1.prems"(1)] l _ step(2)] by blast
    then show ?thesis by simp
  qed
qed

lemma dynamic_deref_no_cycle:
  assumes "dynamic_deref ls visited i = Inr c"
  shows "\<not> (refers ls)\<^sup>+\<^sup>+ i i"
proof
  assume "(refers ls)\<^sup>+\<^sup>+ i i"
  then obtain k where k: "refers ls i k" "(refers ls)\<^sup>*\<^sup>* k i"
    by (auto dest: tranclpD)
  obtain c' where "dynamic_deref ls (visited @ [i]) k = Inr c'"
    using dynamic_deref_refers [OF assms k(1)] by blast
  then have "i \<notin> set (visited @ [i])"
    using dynamic_deref_reaches_unvisited k(2) by blast
  then show False by simp
qed

lemma dynamic_deref_reachable_success:
  "(refers ls)\<^sup>*\<^sup>* i j \<Longrightarrow> dynamic_deref ls visited i = Inr c
     \<Longrightarrow> \<exists>visited' c'. dynamic_deref ls visited' j = Inr c'"
proof (induction arbitrary: visited c rule: converse_rtranclp_induct)
  case base
  then show ?case by blast
next
  case (step y z)
  obtain c' where "dynamic_deref ls (visited @ [y]) z = Inr c'"
    using dynamic_deref_refers [OF step.prems step.hyps(1)] by blast
  then show ?case using step.IH by blast
qed

lemma call_no_cycle:
  assumes "map_of ls i = Some l" and "call l (dynamic_deref ls []) = Inr c"
  shows "\<not> (refers ls)\<^sup>+\<^sup>+ i i"
proof
  assume "(refers ls)\<^sup>+\<^sup>+ i i"
  then obtain k where k: "refers ls i k" "(refers ls)\<^sup>*\<^sup>* k i"
    by (auto dest: tranclpD)
  have "k \<in> set (refs l)" using k(1) assms(1) by (simp add: refers_def)
  then obtain c' where "dynamic_deref ls [] k = Inr c'"
    using call_success_refs [OF assms(2)] by blast
  then obtain visited' c'' where "dynamic_deref ls visited' i = Inr c''"
    using dynamic_deref_reachable_success [OF k(2)] by blast
  then show False
    using dynamic_deref_no_cycle \<open>(refers ls)\<^sup>+\<^sup>+ i i\<close> by blast
qed

lemma dereference_success:
  "dereference ls items P = Inr P' \<Longrightarrow> (i, l) \<in> set items
     \<Longrightarrow> \<exists>c. call l (dynamic_deref ls []) = Inr c"
proof (induction items arbitrary: P)
  case Nil
  then show ?case by simp
next
  case (Cons a items)
  obtain j m where a: "a = (j, m)" by (cases a)
  from Cons.prems(1) obtain c where c: "call m (dynamic_deref ls []) = Inr c"
    and rest: "dereference ls items
       (P\<lparr>forward_entries := (forward_entries P)(j \<mapsto> c),
          backward_entries := dict_set (backward_entries P) c j\<rparr>) = Inr P'"
    by (auto simp: a split: sum.splits)
  show ?case
  proof (cases "(i, l) = (j, m)")
    case True
    then show ?thesis using c by auto
  next
    case False
    then have "(i, l) \<in> set items" using Cons.prems(2) a by auto
    then show ?thesis using Cons.IH [OF rest] by blast
  qed
qed

lemma read_cycle_fails:
  assumes "read_lookups version buf = Inr (ls, offset, rest)" and "(refers ls)\<^sup>+\<^sup>+ i i"
  shows "\<exists>err. read version buf = Inl err"
proof (cases "read version buf")
  case (Inl err)
  then show ?thesis by blast
next
  case (Inr r)
  then obtain P where P: "dereference ls ls (empty_pool\<lparr>index := offset\<rparr>) = Inr P"
    using assms(1) by (auto simp: read_def split: sum.splits)
  obtain k where "refers ls i k" using assms(2) by (auto dest: tranclpD)
  then obtain l where l: "map_of ls i = Some l"
    by (auto simp: refers_def split: option.splits)
  then have "(i, l) \<in> set ls" by (rule map_of_SomeD)
  then obtain c where "call l (dynamic_deref ls []) = Inr c"
    using dereference_success [OF P] by blast
  then show ?thesis using call_no_cycle [OF l] assms(2) by blast
qed

lemma dynamic_deref_visited:
  "idx \<in> set visited \<Longrightarrow> dynamic_deref ls visited idx = Inl (RecursiveConstant idx)"
  by (simp add: dynamic_deref.simps)

text \<open>
  A pool that was read holds no \<open>Index\<close> placeholder in its slots: every closure builds a
  constant of its class.
\<close>

lemma map_sum_Inr: "map_sum f g x = Inr y \<longleftrightarrow> (\<exists>z. x = Inr z \<and> y = g z)"
  by (cases x) auto

lemma read_info_not_placeholder:
  "read_info t buf = Inr (l, rest) \<Longrightarrow> not_placeholder l"
  by (auto simp: read_info_def utf8_read_def Let_def map_sum_Inr
           split: if_splits prod.splits sum.splits)

lemma read_loop_not_placeholder:
  "read_loop version n offset buf ls = Inr (ls', offset', rest)
     \<Longrightarrow> \<forall>(i, l) \<in> set ls. not_placeholder l \<Longrightarrow> \<forall>(i, l) \<in> set ls'. not_placeholder l"
proof (induction version n offset buf ls rule: read_loop.induct)
  case (1 version constants_count offset buf lookups)
  show ?case
  proof (cases "offset < constants_count")
    case False
    then show ?thesis using "1.prems" by (simp add: read_loop.simps [of _ _ offset])
  next
    case True
    from "1.prems"(1) True obtain t buf1 l buf2 where
      r: "buffer_read buf 1 = ([t], buf1)" "t \<in> set constant_map"
         "\<not> version_gt (since t) version" "read_info t buf1 = Inr (l, buf2)"
         "read_loop version constants_count (offset + (if class_wide t then 2 else 1)) buf2
            (lookups @ [(offset, l)]) = Inr (ls', offset', rest)"
      by (subst (asm) read_loop.simps)
         (auto split: prod.splits list.splits if_splits sum.splits)
    have "\<forall>(i, l) \<in> set (lookups @ [(offset, l)]). not_placeholder l"
      using "1.prems"(2) read_info_not_placeholder [OF r(4)] by auto
    then show ?thesis
      using "1.IH" [OF True r(1) [symmetric] refl refl _ r(3) r(4) refl r(5)] r(2) by blast
  qed
qed

lemma call_not_placeholder:
  "call l f = Inr c \<Longrightarrow> not_placeholder l \<Longrightarrow> \<not> is_Index c"
  by (cases l)
     (auto simp: new_value_def new_Class_def new_ref_def new_dynamic_def
           split: sum.splits option.splits if_splits)

lemma dereference_not_placeholder:
  "dereference ls items P = Inr P' \<Longrightarrow> \<forall>(i, l) \<in> set items. not_placeholder l
     \<Longrightarrow> \<forall>k c. forward_entries P k = Some c \<longrightarrow> \<not> is_Index c
     \<Longrightarrow> forward_entries P' k = Some c \<Longrightarrow> \<not> is_Index c"
proof (induction items arbitrary: P)
  case Nil
  then show ?case by simp
next
  case (Cons a items)
  obtain j m where a: "a = (j, m)" by (cases a)
  from Cons.prems(1) obtain d where d: "call m (dynamic_deref ls []) = Inr d"
    and rest: "dereference ls items
       (P\<lparr>forward_entries := (forward_entries P)(j \<mapsto> d),
          backward_entries := dict_set (backward_entries P) d j\<rparr>) = Inr P'"
    by (auto simp: a split: sum.splits)
  have "\<not> is_Index d" using call_not_placeholder [OF d] Cons.prems(2) a by auto
  then show ?case
    using Cons.IH [OF rest] Cons.prems(2,3,4) by auto
qed

lemma read_no_placeholder:
  assumes "read version buf = Inr (P, rest)" and "forward_entries P k = Some c"
  shows "\<not> is_Index c"
proof -
  obtain ls offset where l: "read_lookups version buf = Inr (ls, offset, rest)"
    and d: "dereference ls ls (empty_pool\<lparr>index := offset\<rparr>) = Inr P"
    using assms(1) by (auto simp: read_def split: sum.splits)
  obtain n buf1 where "read_loop version n 1 buf1 [] = Inr (ls, offset, rest)"
    using l by (auto simp: read_lookups_def Let_def split: prod.splits sum.splits)
  then have "\<forall>(i, l) \<in> set ls. not_placeholder l"
    by (rule read_loop_not_placeholder) simp
  then show ?thesis
    using dereference_not_placeholder [OF d _ _ assms(2)] by (simp add: empty_pool_def)
qed

text \<open>
  Claim C3, as stated, fails on a pool of two constants, a \<open>Class\<close> at slot 1 whose name
  index is 1 and the \<open>UTF8\<close> constant \<open>"A"\<close> at slot 2: \<open>read\<close> raises the error of the
  recursion and returns no pool, neither a placeholder at slot 1 nor the constant of slot 2.
\<close>

theorem C3_cycle_counterexample:
  "read (52, 0) [0, 3, 7, 0, 1, 1, 0, 1, 65] = Inl (RecursiveConstant 1)"
proof -
  have l: "read_lookups (52, 0) [0, 3, 7, 0, 1, 1, 0, 1, 65]
             = Inr ([(1, Value_lookup 7 1), (2, Constant_lookup (UTF8 [65]))], 3, [])"
    by code_simp
  have d: "dynamic_deref [(1, Value_lookup 7 1), (2, Constant_lookup (UTF8 [65]))] [] 1
             = Inl (RecursiveConstant 1)"
    by code_simp
  show ?thesis unfolding read_def l by (simp add: d)
qed

text \<open>
  Claim C3, amended. When the dereferencing re-enters an index that is in \<open>visited\<close>, it
  raises the \<open>ValueError\<close> of the recursive constant, and nothing catches it: whenever a
  slot of the pool lies on a cycle of references, \<open>read\<close> ends with an error and returns no
  pool.
\<close>

theorem C3_recursive_constant_aborts_read:
  assumes "read_lookups version buf = Inr (lookups, offset, rest)"
    and "(refers lookups)\<^sup>+\<^sup>+ i i"
  shows "(\<forall>visited. i \<in> set visited \<longrightarrow> dynamic_deref lookups visited i = Inl (RecursiveConstant i))
       \<and> (\<exists>err. read version buf = Inl err)"
  using read_cycle_fails [OF assms] dynamic_deref_visited by blast

text \<open>The amended claim C3 on the pool whose only constant is a \<open>Class\<close> that names itself.\<close>

theorem C3_recursive_constant_aborts_read_witness:
  "dynamic_deref [(1, Value_lookup 7 1)] [1] 1 = Inl (RecursiveConstant 1)
   \<and> (\<exists>err. read (52, 0) [0, 2, 7, 0, 1] = Inl err)"
proof -
  have l: "read_lookups (52, 0) [0, 2, 7, 0, 1] = Inr ([(1, Value_lookup 7 1)], 2, [])"
    by code_simp
  have "refers [(1, Value_lookup 7 1)] 1 1"
    by (simp add: refers_def)
  then have c: "(refers [(1, Value_lookup 7 1)])\<^sup>+\<^sup>+ 1 1"
    by (rule tranclp.r_into_trancl)
  show ?thesis
    using C3_recursive_constant_aborts_read [OF l c] by simp
qed

end
